theory Spec2Isabelle
  imports Complex_Main "HOL-Library.AList"
begin

section \<open>Data model of main.ts\<close>

text \<open>
  The server keeps module-level state: the configuration, the counters made by
  \<open>makeState\<close>, the registry \<open>clients\<close> of WebSocket clients, the registry
  \<open>sseClients\<close> of event-stream clients and the timer handle \<open>ticker\<close>.
  A handler is modelled as a function from that state to the new state and the list of
  effects it performed, in the order it performed them. The handlers modelled are those
  that read or write the registries, the configuration, the timer or the counters of
  errors, messages and pushes; serving files and the health and stats endpoints are not.

  A \<open>send\<close> on a socket whose \<open>readyState\<close> was tested to be OPEN just before is
  taken to succeed, except inside the \<open>try\<close> block of the push loop, where the source
  expects it to throw and the model lets it.

  A JavaScript \<open>Map\<close> is an association list in insertion order with distinct keys:
  \<open>Map.set\<close> is \<open>AList.update\<close> (an existing key keeps its place, a new one goes
  last), \<open>Map.delete\<close> is \<open>AList.delete\<close>, \<open>Map.get\<close> is \<open>map_of\<close>.

  A WebSocket is a handle (a number); what the code reads of it is its \<open>readyState\<close>,
  which the runtime changes and the state records per handle.
\<close>

datatype cat_mode = Url | Bin

datatype ready_state = CONNECTING | OPEN | CLOSING | CLOSED

type_synonym socket = nat

type_synonym controller = nat

text \<open>A JavaScript number as the code tests it: \<open>Number.isFinite\<close> and comparisons.\<close>

datatype number = NaN | PosInfinity | NegInfinity | Finite real

definition isFinite :: "number \<Rightarrow> bool" where
  "isFinite n = (case n of Finite r \<Rightarrow> True | _ \<Rightarrow> False)"

text \<open>The comparison \<open>a < b\<close> of two numbers: false when either is NaN.\<close>

fun js_lt :: "number \<Rightarrow> number \<Rightarrow> bool" where
  "js_lt NaN b = False"
| "js_lt a NaN = False"
| "js_lt (Finite a) (Finite b) = (a < b)"
| "js_lt (Finite a) PosInfinity = True"
| "js_lt (Finite a) NegInfinity = False"
| "js_lt NegInfinity NegInfinity = False"
| "js_lt NegInfinity b = True"
| "js_lt PosInfinity b = False"

record AppConfig =
  target_ip :: string
  port :: int
  cat_interval_ms :: int
  cat_mode :: cat_mode
  max_clients :: int
  allow_origins :: "string list"

text \<open>The object built by \<open>safeConfigForClient\<close>: target_ip, port, cat_interval_ms,
  cat_mode, max_clients.\<close>

datatype safe_config = SafeConfig string int int cat_mode int

record WsClient =
  ws :: socket
  client_id :: string
  intervalMs :: number
  paused :: bool
  lastSentAt :: int
  mode :: cat_mode

record SseClient =
  sse_id :: string
  ctrl :: controller

record stats =
  startedAt :: int
  httpRequests :: nat
  wsConnections :: nat
  wsMessages :: nat
  catsSent :: nat
  errors :: nat

record payload =
  ptype :: string
  bytes :: "nat list"

datatype wsmsg =
    MsgHelp
  | MsgError string
  | MsgOk string
  | MsgOkInterval number
  | MsgPong int
  | MsgYou string number bool cat_mode
  | MsgCatUrl string int
  | MsgCatBin string int
  | BinaryFrame "nat list"
  | MsgConfig safe_config

datatype ssemsg =
    SseHello string string safe_config
  | SseConfig safe_config
  | SsePulse int nat nat string

datatype effect =
    Send socket wsmsg
  | SendThrew socket wsmsg
  | Enqueue controller ssemsg
  | FetchCatBytes
  | ConsoleLog "string list"

record server =
  config :: AppConfig
  state :: stats
  clients :: "(string \<times> WsClient) list"
  sseClients :: "(string \<times> SseClient) list"
  ticker :: "nat option"
  readyState :: "socket \<Rightarrow> ready_state"
  ctrlClosed :: "controller \<Rightarrow> bool"

definition makeState :: "int \<Rightarrow> stats" where
  "makeState now = \<lparr>startedAt = now, httpRequests = 0, wsConnections = 0,
     wsMessages = 0, catsSent = 0, errors = 0\<rparr>"

definition safeConfigForClient :: "AppConfig \<Rightarrow> safe_config" where
  "safeConfigForClient cfg =
     SafeConfig (target_ip cfg) (port cfg) (cat_interval_ms cfg) (cat_mode cfg) (max_clients cfg)"

text \<open>The handler of \<open>/api/config\<close> answers with the safe configuration.\<close>

definition api_config :: "server \<Rightarrow> safe_config" where
  "api_config s = safeConfigForClient (config s)"

section \<open>Broadcasts\<close>

text \<open>\<open>broadcastSse\<close>: \<open>enqueue\<close> on every controller; one that throws (its stream is
  closed) is skipped by the \<open>catch\<close>.\<close>

definition broadcastSse :: "server \<Rightarrow> ssemsg \<Rightarrow> effect list" where
  "broadcastSse s m =
     concat (map (\<lambda>(k, sc). if ctrlClosed s (ctrl sc) then [] else [Enqueue (ctrl sc) m])
       (sseClients s))"

text \<open>The loop \<open>for (const c of clients.values()) if (c.ws.readyState === OPEN) c.ws.send(m)\<close>,
  which the source runs for the configuration update and for the fetch error.\<close>

definition sendAllOpen :: "server \<Rightarrow> wsmsg \<Rightarrow> effect list" where
  "sendAllOpen s m =
     concat (map (\<lambda>(k, c). if readyState s (ws c) = OPEN then [Send (ws c) m] else [])
       (clients s))"

definition broadcastConfigUpdate :: "server \<Rightarrow> effect list" where
  "broadcastConfigUpdate s =
     broadcastSse s (SseConfig (safeConfigForClient (config s)))
     @ sendAllOpen s (MsgConfig (safeConfigForClient (config s)))"

section \<open>The ticker\<close>

definition startTickerIfNeeded :: "nat \<Rightarrow> server \<Rightarrow> server" where
  "startTickerIfNeeded timer s =
     (if ticker s \<noteq> None then s else s\<lparr>ticker := Some timer\<rparr>)"

definition stopTickerIfNoClients :: "server \<Rightarrow> server" where
  "stopTickerIfNoClients s =
     (if length (clients s) = 0 \<and> ticker s \<noteq> None then s\<lparr>ticker := None\<rparr> else s)"


section \<open>JavaScript strings\<close>

text \<open>
  Strings are lists of code units below 256. The white space that \<open>trim\<close> strips and
  that \<open>\s\<close> matches is then TAB, LF, VT, FF, CR, SPACE and NBSP; \<open>toLowerCase\<close>
  moves A..Z and the capital letters of Latin-1 by 32.
\<close>

definition is_ws :: "char \<Rightarrow> bool" where
  "is_ws c = (of_char c \<in> {9, 10, 11, 12, 13, 32, 160 :: nat})"

definition trim :: "string \<Rightarrow> string" where
  "trim s = rev (dropWhile is_ws (rev (dropWhile is_ws s)))"

text \<open>\<open>s.split(/\s+/)\<close>: the pieces between maximal runs of white space; the flag says
  that the scan stands inside a run.\<close>

fun split_go :: "bool \<Rightarrow> string \<Rightarrow> string \<Rightarrow> string list" where
  "split_go inrun cur [] = [rev cur]"
| "split_go inrun cur (c # cs) =
     (if is_ws c then (if inrun then split_go True cur cs else rev cur # split_go True [] cs)
      else split_go False (c # cur) cs)"

definition split_ws :: "string \<Rightarrow> string list" where
  "split_ws s = split_go False [] s"

definition toLowerChar :: "char \<Rightarrow> char" where
  "toLowerChar c =
     (let n = (of_char c :: nat) in
      if (65 \<le> n \<and> n \<le> 90) \<or> (192 \<le> n \<and> n \<le> 222 \<and> n \<noteq> 215) then char_of (n + 32)
      else c)"

definition toLowerCase :: "string \<Rightarrow> string" where
  "toLowerCase s = map toLowerChar s"

definition startsWith :: "string \<Rightarrow> string \<Rightarrow> bool" where
  "startsWith s p = (take (length p) s = p)"

section \<open>Registration and removal\<close>

record request =
  origin :: "string option"
  isUpgrade :: bool

datatype js_error = TypeError | ReferenceError

text \<open>A response: a text with its status, the response of a completed upgrade, or the
  answer of \<open>withLog\<close> to an exception, status 500.\<close>

datatype response = Text string nat | Upgraded | InternalError js_error

definition originAllowed :: "AppConfig \<Rightarrow> string option \<Rightarrow> bool" where
  "originAllowed cfg og =
     (case og of
        None \<Rightarrow> True
      | Some org \<Rightarrow>
          if org = [] then True
          else if ''*'' \<in> set (allow_origins cfg) then True
          else org \<in> set (allow_origins cfg))"

text \<open>
  \<open>handleWs\<close>. The runtime supplies the socket of the upgrade (\<open>sock\<close>, in state
  CONNECTING), the value of \<open>uid()\<close> and the handle \<open>setInterval\<close> would return.
  \<open>Deno.upgradeWebSocket\<close> throws on a request that is no upgrade.
\<close>

definition handleWs ::
  "request \<Rightarrow> socket \<Rightarrow> string \<Rightarrow> nat \<Rightarrow> server \<Rightarrow> (js_error + response) \<times> server" where
  "handleWs req sock uid timer s =
     (if \<not> originAllowed (config s) (origin req) then (Inr (Text ''Origin not allowed'' 403), s)
      else if int (length (clients s)) \<ge> max_clients (config s)
        then (Inr (Text ''Too many clients'' 429), s)
      else if \<not> isUpgrade req then (Inl TypeError, s)
      else
        let client = \<lparr>ws = sock, client_id = uid,
              intervalMs = Finite (real_of_int (cat_interval_ms (config s))),
              paused = False, lastSentAt = 0, mode = cat_mode (config s)\<rparr>;
            s1 = s\<lparr>readyState := (readyState s)(sock := CONNECTING),
                   clients := AList.update uid client (clients s)\<rparr>;
            s2 = s1\<lparr>state := (state s1)\<lparr>wsConnections := wsConnections (state s1) + 1\<rparr>\<rparr>
        in (Inr Upgraded, startTickerIfNeeded timer s2))"

text \<open>\<open>cleanup\<close>, the handler of \<open>onclose\<close> and \<open>onerror\<close> of the socket registered
  under \<open>uid\<close>.\<close>

definition cleanup :: "string \<Rightarrow> server \<Rightarrow> server" where
  "cleanup uid s = stopTickerIfNoClients (s\<lparr>clients := AList.delete uid (clients s)\<rparr>)"


section \<open>The tick of the dispatcher\<close>

text \<open>
  What the runtime decides during one tick: how \<open>fetchCatBytes\<close> settles (\<open>Inl\<close> the
  text of the exception), whether the \<open>n\<close>-th \<open>send\<close> of the push to a socket throws,
  the value of \<open>randomCatUrl()\<close> made for a socket, \<open>randomMood()\<close> and the second
  reading of the clock.
\<close>

record tick_env =
  fetchResult :: "string + payload"
  sendThrows :: "socket \<Rightarrow> nat \<Rightarrow> bool"
  randomCatUrl :: "socket \<Rightarrow> string"
  randomMood :: string
  nowMs :: int

definition someoneWantsBin :: "server \<Rightarrow> bool" where
  "someoneWantsBin s = list_ex (\<lambda>(k, c). mode c = Bin \<and> \<not> paused c) (clients s)"

text \<open>One round of the push loop, for the client \<open>c\<close>: the three \<open>continue\<close> guards,
  the assignment of \<open>lastSentAt\<close>, then the \<open>try\<close> block. The result is the client,
  the increment of \<open>catsSent\<close> and the effects.\<close>

definition pushOne ::
  "server \<Rightarrow> tick_env \<Rightarrow> int \<Rightarrow> payload option \<Rightarrow> WsClient \<Rightarrow> WsClient \<times> nat \<times> effect list" where
  "pushOne s env t binPayload c =
     (if paused c then (c, 0, [])
      else if readyState s (ws c) \<noteq> OPEN then (c, 0, [])
      else if js_lt (Finite (real_of_int (t - lastSentAt c))) (intervalMs c) then (c, 0, [])
      else
        let c' = c\<lparr>lastSentAt := t\<rparr> in
        (case mode c of
           Url \<Rightarrow>
             let m = MsgCatUrl (randomCatUrl env (ws c)) t in
             if sendThrows env (ws c) 0 then (c', 0, [SendThrew (ws c) m])
             else (c', 1, [Send (ws c) m])
         | Bin \<Rightarrow>
             (case binPayload of
                None \<Rightarrow> (c', 0, [])
              | Some p \<Rightarrow>
                  let h = MsgCatBin (ptype p) t; b = BinaryFrame (bytes p) in
                  if sendThrows env (ws c) 0 then (c', 0, [SendThrew (ws c) h])
                  else if sendThrows env (ws c) 1 then (c', 0, [Send (ws c) h, SendThrew (ws c) b])
                  else (c', 1, [Send (ws c) h, Send (ws c) b]))))"

fun pushLoop ::
  "server \<Rightarrow> tick_env \<Rightarrow> int \<Rightarrow> payload option \<Rightarrow> (string \<times> WsClient) list
     \<Rightarrow> (string \<times> WsClient) list \<times> nat \<times> effect list" where
  "pushLoop s env t binPayload [] = ([], 0, [])"
| "pushLoop s env t binPayload ((k, c) # rest) =
     (case pushOne s env t binPayload c of
        (c', n, es) \<Rightarrow>
          (case pushLoop s env t binPayload rest of
             (rest', m, es') \<Rightarrow> ((k, c') # rest', n + m, es @ es')))"

text \<open>The tick from the push loop on: the loop, then the pulse to the event streams.\<close>

definition tickRest :: "server \<Rightarrow> tick_env \<Rightarrow> int \<Rightarrow> payload option \<Rightarrow> server \<times> effect list" where
  "tickRest s env t binPayload =
     (case pushLoop s env t binPayload (clients s) of
        (cs, n, es) \<Rightarrow>
          let st = (state s)\<lparr>catsSent := catsSent (state s) + n\<rparr>;
              s' = s\<lparr>clients := cs, state := st\<rparr>
          in (s', es @ broadcastSse s'
                (SsePulse ((nowMs env - startedAt st) div 1000) (length cs) (catsSent st)
                   (randomMood env))))"

text \<open>The tick from the point where \<open>await fetchCatBytes()\<close> settles, in the state \<open>s\<close>
  of that moment.\<close>

definition afterFetch :: "server \<Rightarrow> tick_env \<Rightarrow> int \<Rightarrow> server \<times> effect list" where
  "afterFetch s env t =
     (case fetchResult env of
        Inr p \<Rightarrow> tickRest s env t (Some p)
      | Inl e \<Rightarrow>
          let s1 = s\<lparr>state := (state s)\<lparr>errors := errors (state s) + 1\<rparr>\<rparr> in
          (case tickRest s1 env t None of
             (s2, es) \<Rightarrow> (s2, sendAllOpen s1 (MsgError e) @ es)))"

text \<open>
  The callback of \<open>setInterval\<close>. \<open>s\<close> is the state when the timer fires and \<open>t\<close> the
  clock then. When the fetch is started the callback is suspended, and other handlers may
  run before it resumes: \<open>s2\<close> is the state when the fetch settles (\<open>s\<close> itself when
  nothing else ran).
\<close>

definition tick :: "server \<Rightarrow> tick_env \<Rightarrow> int \<Rightarrow> server \<Rightarrow> server \<times> effect list" where
  "tick s env t s2 =
     (if length (clients s) = 0 then (s, [])
      else if someoneWantsBin s then
        (case afterFetch s2 env t of (s', es) \<Rightarrow> (s', FetchCatBytes # es))
      else tickRest s env t None)"


section \<open>The command protocol\<close>

text \<open>
  The library functions the message handler calls are parameters: \<open>Number\<close> on a string,
  \<open>JSON.parse\<close> (\<open>None\<close> when it throws; it is applied to text that starts with a
  brace, so a value it returns is an object, given by its fields), \<open>String\<close> on a parsed
  value that is neither null nor a string (\<open>None\<close> when it throws, as it does on an
  object whose \<open>toString\<close> is not a function), and the clock.
\<close>

datatype json =
    JNull
  | JBool bool
  | JNum number
  | JStr string
  | JArr "json list"
  | JObj "(string \<times> json) list"

record js_env =
  Number :: "string \<Rightarrow> number"
  JSON_parse :: "string \<Rightarrow> (string \<times> json) list option"
  String_of :: "json \<Rightarrow> string option"
  Date_now :: int

datatype ws_data = TextData string | BinaryData "nat list"

text \<open>\<open>reply\<close>, on the socket of the handler.\<close>

definition reply :: "server \<Rightarrow> socket \<Rightarrow> wsmsg \<Rightarrow> effect list" where
  "reply s sock m = (if readyState s sock = OPEN then [Send sock m] else [])"

text \<open>\<open>Number(args[0])\<close>: \<open>args[0]\<close> is undefined on an empty list, and
  \<open>Number(undefined)\<close> is NaN.\<close>

definition Number_arg0 :: "js_env \<Rightarrow> string list \<Rightarrow> number" where
  "Number_arg0 js args = (case args of [] \<Rightarrow> NaN | a # _ \<Rightarrow> Number js a)"

text \<open>\<open>handleCommand\<close> of the connection whose handler closed over \<open>uid\<close> and
  \<open>sock\<close>.\<close>

definition handleCommand ::
  "js_env \<Rightarrow> socket \<Rightarrow> string \<Rightarrow> string \<Rightarrow> string list \<Rightarrow> server \<Rightarrow> server \<times> effect list" where
  \<open>handleCommand js sock uid cmd args s =
     (case map_of (clients s) uid of
        None \<Rightarrow> (s, [])
      | Some c \<Rightarrow>
          if cmd = ''help'' then (s, reply s sock MsgHelp)
          else if cmd = ''interval'' then
            (let ms = Number_arg0 js args in
             if \<not> isFinite ms \<or> js_lt ms (Finite 200) \<or> js_lt (Finite 60000) ms
             then (s, reply s sock (MsgError ''interval must be 200..60000 ms''))
             else
               (s\<lparr>clients := AList.update uid (c\<lparr>intervalMs := ms\<rparr>) (clients s)\<rparr>,
                reply s sock (MsgOkInterval ms)))
          else if cmd = ''pause'' then
            (s\<lparr>clients := AList.update uid (c\<lparr>paused := True\<rparr>) (clients s)\<rparr>,
             reply s sock (MsgOk ''paused''))
          else if cmd = ''resume'' then
            (s\<lparr>clients := AList.update uid (c\<lparr>paused := False\<rparr>) (clients s)\<rparr>,
             reply s sock (MsgOk ''resumed''))
          else if cmd = ''mode'' then
            (let m = toLowerCase (case args of [] \<Rightarrow> [] | a # _ \<Rightarrow> a) in
             if m \<noteq> ''url'' \<and> m \<noteq> ''bin''
             then (s, reply s sock (MsgError ''mode must be "url" or "bin"''))
             else
               (s\<lparr>clients := AList.update uid
                    (c\<lparr>mode := (if m = ''url'' then Url else Bin)\<rparr>) (clients s)\<rparr>,
                reply s sock (MsgOk (''mode set to '' @ m))))
          else if cmd = ''ping'' then (s, reply s sock (MsgPong (Date_now js)))
          else if cmd = ''whoami'' then
            (s, reply s sock (MsgYou (client_id c) (intervalMs c) (paused c) (mode c)))
          else (s, reply s sock (MsgError (''unknown command: '' @ cmd))))\<close>

text \<open>\<open>String(obj.f ?? "")\<close> for a field \<open>f\<close> of the parsed object; \<open>None\<close> when the
  conversion throws.\<close>

definition field_string :: "js_env \<Rightarrow> (string \<times> json) list \<Rightarrow> string \<Rightarrow> string option" where
  "field_string js obj f =
     (case map_of obj f of
        None \<Rightarrow> Some []
      | Some JNull \<Rightarrow> Some []
      | Some (JStr v) \<Rightarrow> Some v
      | Some v \<Rightarrow> String_of js v)"

text \<open>The plain-text stage: \<open>const [cmd, ...args] = s.split(/\s+/)\<close> and
  \<open>handleCommand(cmd.toLowerCase(), args)\<close>.\<close>

definition textCommand ::
  "js_env \<Rightarrow> socket \<Rightarrow> string \<Rightarrow> string \<Rightarrow> server \<Rightarrow> server \<times> effect list" where
  "textCommand js sock uid str s =
     (case split_ws str of
        [] \<Rightarrow> (s, [])
      | cmd # args \<Rightarrow> handleCommand js sock uid (toLowerCase cmd) args s)"

text \<open>The structured stage, on the fields of a parsed object: the body of the \<open>try\<close>
  block after \<open>JSON.parse\<close>. The result is \<open>None\<close> when a conversion to a string
  throws; the conversion of \<open>ms\<close> or \<open>mode\<close> is made only in the branch of its own
  command.\<close>

definition jsonCommand ::
  "js_env \<Rightarrow> socket \<Rightarrow> string \<Rightarrow> (string \<times> json) list \<Rightarrow> server
     \<Rightarrow> (server \<times> effect list) option" where
  "jsonCommand js sock uid obj s =
     (case field_string js obj ''cmd'' of
        None \<Rightarrow> None
      | Some cmd \<Rightarrow>
          if cmd = [] then Some (s, [])
          else if cmd = ''interval'' then
            (case field_string js obj ''ms'' of
               None \<Rightarrow> None
             | Some ms \<Rightarrow> Some (handleCommand js sock uid ''interval'' [ms] s))
          else if cmd = ''mode'' then
            (case field_string js obj ''mode'' of
               None \<Rightarrow> None
             | Some m \<Rightarrow> Some (handleCommand js sock uid ''mode'' [m] s))
          else if cmd = ''pause'' then Some (handleCommand js sock uid ''pause'' [] s)
          else if cmd = ''resume'' then Some (handleCommand js sock uid ''resume'' [] s)
          else if cmd = ''help'' then Some (handleCommand js sock uid ''help'' [] s)
          else if cmd = ''ping'' then Some (handleCommand js sock uid ''ping'' [] s)
          else if cmd = ''whoami'' then Some (handleCommand js sock uid ''whoami'' [] s)
          else Some (handleCommand js sock uid cmd [] s))"

text \<open>\<open>socket.onmessage\<close>. An exception inside the \<open>try\<close> block, from \<open>JSON.parse\<close> or
  from a conversion after it, is caught and the trimmed text goes to the plain-text
  stage.\<close>

definition onmessage ::
  "js_env \<Rightarrow> socket \<Rightarrow> string \<Rightarrow> ws_data \<Rightarrow> server \<Rightarrow> server \<times> effect list" where
  "onmessage js sock uid ev_data s0 =
     (let s = s0\<lparr>state := (state s0)\<lparr>wsMessages := wsMessages (state s0) + 1\<rparr>\<rparr> in
      case ev_data of
        BinaryData b \<Rightarrow> (s, [])
      | TextData raw \<Rightarrow>
          let str = trim raw in
          if str = [] then (s, [])
          else if startsWith str ''{'' then
            (case JSON_parse js str of
               Some obj \<Rightarrow>
                 (case jsonCommand js sock uid obj s of
                    Some r \<Rightarrow> r
                  | None \<Rightarrow> textCommand js sock uid str s)
             | None \<Rightarrow> textCommand js sock uid str s)
          else textCommand js sock uid str s)"

section \<open>Hot reload of the configuration\<close>

text \<open>One round of the loop over \<open>watchConfigFile\<close>: \<open>loaded\<close> is how \<open>loadConfig\<close>
  settled, \<open>Inl\<close> the text of the exception it threw.\<close>

definition onConfigChange ::
  "string \<Rightarrow> string + AppConfig \<Rightarrow> server \<Rightarrow> server \<times> effect list" where
  "onConfigChange path loaded s =
     (case loaded of
        Inr cfg \<Rightarrow>
          let s' = s\<lparr>config := cfg\<rparr> in
          (s', broadcastConfigUpdate s' @ [ConsoleLog [''Config reloaded from'', path]])
      | Inl e \<Rightarrow>
          (s\<lparr>state := (state s)\<lparr>errors := errors (state s) + 1\<rparr>\<rparr>,
           [ConsoleLog [''Config reload failed:'', e]]))"

section \<open>The event stream endpoint\<close>

text \<open>
  \<open>handleSse\<close>. The \<open>start\<close> callback runs inside the constructor of the stream: it
  registers the client, enqueues the hello event, sets the keepalive timer, and then
  assigns to a property of \<open>stream\<close>, a constant that is not initialised before the
  constructor returns. That read throws, the constructor and \<open>handleSse\<close> with it, and
  the entry stays in \<open>sseClients\<close>. The runtime supplies the value of \<open>uid()\<close>, the
  controller and the mood. The keepalive events are left out of the effects.
\<close>

definition handleSse ::
  "string \<Rightarrow> controller \<Rightarrow> string \<Rightarrow> server \<Rightarrow> (js_error + response) \<times> server \<times> effect list" where
  "handleSse uid ctl mood s =
     (Inl ReferenceError,
      s\<lparr>sseClients := AList.update uid \<lparr>sse_id = uid, ctrl = ctl\<rparr> (sseClients s)\<rparr>,
      [Enqueue ctl (SseHello uid mood (safeConfigForClient (config s)))])"

text \<open>The \<open>cancel\<close> callback of the stream registered under \<open>uid\<close>.\<close>

definition sse_cancel :: "string \<Rightarrow> server \<Rightarrow> server" where
  "sse_cancel uid s = s\<lparr>sseClients := AList.delete uid (sseClients s)\<rparr>"

section \<open>The request handler\<close>

text \<open>
  \<open>withLog\<close> around the handler of \<open>Deno.serve\<close>, for a request routed to \<open>/ws\<close> and
  for one routed to \<open>/events\<close>: the handler counts the request and calls the endpoint;
  when that throws, \<open>withLog\<close> counts an error and answers with status 500. The lines
  \<open>withLog\<close> writes to the console are left out.
\<close>

definition withLog :: "(js_error + response) \<times> server \<Rightarrow> response \<times> server" where
  "withLog r =
     (case r of
        (Inr res, s) \<Rightarrow> (res, s)
      | (Inl e, s) \<Rightarrow> (InternalError e, s\<lparr>state := (state s)\<lparr>errors := errors (state s) + 1\<rparr>\<rparr>))"

definition count_request :: "server \<Rightarrow> server" where
  "count_request s = s\<lparr>state := (state s)\<lparr>httpRequests := httpRequests (state s) + 1\<rparr>\<rparr>"

definition serve_ws :: "request \<Rightarrow> socket \<Rightarrow> string \<Rightarrow> nat \<Rightarrow> server \<Rightarrow> response \<times> server" where
  "serve_ws req sock uid timer s = withLog (handleWs req sock uid timer (count_request s))"

definition serve_events ::
  "string \<Rightarrow> controller \<Rightarrow> string \<Rightarrow> server \<Rightarrow> response \<times> server \<times> effect list" where
  "serve_events uid ctl mood s =
     (case handleSse uid ctl mood (count_request s) of
        (r, s1, es) \<Rightarrow> (case withLog (r, s1) of (res, s2) \<Rightarrow> (res, s2, es)))"

section \<open>Events and runs\<close>

text \<open>
  The server reacts to events, one at a time: a request for \<open>/ws\<close>, the close or error
  of a registered socket, a change of a socket's \<open>readyState\<close> by the runtime, a message,
  a change of the configuration file, the timer, the settling of a fetch that an
  earlier tick started, a request for \<open>/events\<close> and the cancellation of an event
  stream. The timer fires only while it is set.
\<close>

datatype event =
    WsRequest request socket string nat
  | SocketClosed string
  | SocketState socket ready_state
  | Message js_env socket string ws_data
  | ConfigChanged string "string + AppConfig"
  | TimerFired tick_env int
  | FetchSettled tick_env int
  | SseStarted string controller string
  | SseCancelled string

fun step :: "server \<Rightarrow> event \<Rightarrow> server" where
  "step s (WsRequest req sock uid timer) = snd (serve_ws req sock uid timer s)"
| "step s (SocketClosed uid) = cleanup uid s"
| "step s (SocketState sock r) = s\<lparr>readyState := (readyState s)(sock := r)\<rparr>"
| "step s (Message js sock uid d) = fst (onmessage js sock uid d s)"
| "step s (ConfigChanged path loaded) = fst (onConfigChange path loaded s)"
| "step s (TimerFired env t) = (if ticker s = None then s else fst (tick s env t s))"
| "step s (FetchSettled env t) = fst (afterFetch s env t)"
| "step s (SseStarted uid ctl mood) = fst (snd (serve_events uid ctl mood s))"
| "step s (SseCancelled uid) = sse_cancel uid s"

definition run :: "server \<Rightarrow> event list \<Rightarrow> server" where
  "run s evs = foldl step s evs"

text \<open>The state when the module has loaded: the configuration read, the counters fresh,
  both registries empty, no timer.\<close>

definition init :: "AppConfig \<Rightarrow> int \<Rightarrow> server" where
  "init cfg now = \<lparr>config = cfg, state = makeState now, clients = [], sseClients = [],
     ticker = None, readyState = (\<lambda>_. CLOSED), ctrlClosed = (\<lambda>_. False)\<rparr>"

definition DEFAULTS :: AppConfig where
  "DEFAULTS = \<lparr>target_ip = ''127.0.0.1'', port = 8000, cat_interval_ms = 2500,
     cat_mode = Url, max_clients = 50, allow_origins = [''*'']\<rparr>"

section \<open>Notions the properties are stated with\<close>

text \<open>A client is due at time \<open>t\<close> when none of the three guards of the push loop skips
  it.\<close>

definition due :: "server \<Rightarrow> int \<Rightarrow> WsClient \<Rightarrow> bool" where
  "due s t c =
     (\<not> paused c \<and> readyState s (ws c) = OPEN
      \<and> \<not> js_lt (Finite (real_of_int (t - lastSentAt c))) (intervalMs c))"

text \<open>The messages of a push: the url message, the header of the bytes, the bytes.\<close>

fun is_push :: "wsmsg \<Rightarrow> bool" where
  "is_push (MsgCatUrl u ts) = True"
| "is_push (MsgCatBin mime ts) = True"
| "is_push (BinaryFrame b) = True"
| "is_push m = False"

fun is_bin_push :: "wsmsg \<Rightarrow> bool" where
  "is_bin_push (MsgCatBin mime ts) = True"
| "is_bin_push (BinaryFrame b) = True"
| "is_bin_push m = False"

text \<open>The sends of a list of effects, made or thrown, as pairs of socket and message.\<close>

fun send_of :: "effect \<Rightarrow> (socket \<times> wsmsg) option" where
  "send_of (Send sock m) = Some (sock, m)"
| "send_of (SendThrew sock m) = Some (sock, m)"
| "send_of e = None"

definition attempts :: "effect list \<Rightarrow> (socket \<times> wsmsg) list" where
  "attempts es = List.map_filter send_of es"

text \<open>The interval the specification accepts: a finite number from 200 to 60000.\<close>

definition spec_interval_ok :: "number \<Rightarrow> bool" where
  "spec_interval_ok ms = (case ms of Finite r \<Rightarrow> 200 \<le> r \<and> r \<le> 60000 | _ \<Rightarrow> False)"


section \<open>Sample states and environments\<close>

text \<open>States reached from the initial one by registrations and by the runtime opening or
  closing sockets, with the payload mode \<open>bin\<close> as the configured default; and the
  outcomes of a tick's fetch.\<close>

definition bin_config :: AppConfig where
  "bin_config = DEFAULTS\<lparr>cat_mode := Bin\<rparr>"

definition plain_request :: request where
  "plain_request = \<lparr>origin = None, isUpgrade = True\<rparr>"


definition ex_one_closing :: server where
  "ex_one_closing = run (init bin_config 0)
     [WsRequest plain_request 1 ''a'' 7, SocketState 1 CLOSING]"

definition ex_two_open :: server where
  "ex_two_open = run (init bin_config 0)
     [WsRequest plain_request 1 ''a'' 7, WsRequest plain_request 2 ''b'' 8,
      SocketState 1 OPEN, SocketState 2 OPEN]"

definition ex_open_connecting :: server where
  "ex_open_connecting = run (init bin_config 0)
     [WsRequest plain_request 1 ''a'' 7, SocketState 1 OPEN, WsRequest plain_request 2 ''b'' 8]"

definition env_fetch_fails :: tick_env where
  "env_fetch_fails = \<lparr>fetchResult = Inl ''upstream down'', sendThrows = (\<lambda>_ _. False),
     randomCatUrl = (\<lambda>_. ''https://cataas.com/cat''), randomMood = ''MeowSockets online'',
     nowMs = 5001\<rparr>"

definition env_fetch_ok :: tick_env where
  "env_fetch_ok = \<lparr>fetchResult = Inr \<lparr>ptype = ''image/jpeg'', bytes = [255, 216, 255]\<rparr>,
     sendThrows = (\<lambda>_ _. False),
     randomCatUrl = (\<lambda>_. ''https://cataas.com/cat''), randomMood = ''MeowSockets online'',
     nowMs = 5001\<rparr>"

definition js_sample :: js_env where
  "js_sample = \<lparr>Number = (\<lambda>s. if s = ''1200'' then Finite 1200 else if s = ''100'' then Finite 100 else NaN),
     JSON_parse = (\<lambda>s. if s = ''{\"cmd\":\"interval\",\"ms\":1200}''
        then Some [(''cmd'', JStr ''interval''), (''ms'', JNum (Finite 1200))] else None),
     String_of = (\<lambda>v. if v = JNum (Finite 1200) then Some ''1200'' else None),
     Date_now = 4000\<rparr>"

text \<open>Two open connections, the second switched to \<open>url\<close> mode by its own command; and
  the same with more overrides and one event stream.\<close>

definition ex_streams :: server where
  "ex_streams = run (init bin_config 0)
     [WsRequest plain_request 1 ''a'' 7, WsRequest plain_request 2 ''b'' 8,
      SocketState 1 OPEN, SocketState 2 OPEN,
      Message js_sample 2 ''b'' (TextData ''mode url''),
      Message js_sample 2 ''b'' (TextData ''interval 1200''),
      Message js_sample 1 ''a'' (TextData ''pause''),
      SseStarted ''s'' 11 ''MeowSockets online'']"

definition ex_mixed :: server where
  "ex_mixed = run (init bin_config 0)
     [WsRequest plain_request 1 ''a'' 7, WsRequest plain_request 2 ''b'' 8,
      SocketState 1 OPEN, SocketState 2 OPEN,
      Message js_sample 2 ''b'' (TextData ''mode url'')]"

text \<open>The dispatcher is running while the timer is set.\<close>

definition running :: "server \<Rightarrow> bool" where
  "running s = (ticker s \<noteq> None)"

text \<open>A configuration with room for one client and one allowed origin; a request from
  another origin; the state with that one client registered; and a run in which two
  clients come and go.\<close>

definition strict_config :: AppConfig where
  "strict_config = DEFAULTS\<lparr>max_clients := 1, allow_origins := [''https://cats.example'']\<rparr>"

definition foreign_request :: request where
  "foreign_request = \<lparr>origin = Some ''https://evil.example'', isUpgrade = True\<rparr>"

definition ex_full :: server where
  "ex_full = run (init strict_config 0) [WsRequest plain_request 1 ''a'' 7]"

definition two_in_two_out :: "event list" where
  "two_in_two_out = [WsRequest plain_request 1 ''a'' 7, WsRequest plain_request 2 ''b'' 8,
     SocketClosed ''a'', SocketClosed ''b'']"

text \<open>One open connection in \<open>bin\<close> mode beside one entry of the event streams; and
  that state after the connection's socket has closed.\<close>

definition ex_before_close :: server where
  "ex_before_close = run (init bin_config 0)
     [SseStarted ''s'' 11 ''MeowSockets online'', WsRequest plain_request 1 ''a'' 7,
      SocketState 1 OPEN]"

definition ex_emptied :: server where
  "ex_emptied = step ex_before_close (SocketClosed ''a'')"

text \<open>A configuration a reload may bring.\<close>

definition new_config :: AppConfig where
  "new_config = DEFAULTS\<lparr>cat_interval_ms := 1000\<rparr>"

section \<open>The push loop as a map over the registry\<close>

lemma pushLoop_clients:
  "fst (pushLoop s env t bp cs) = map (\<lambda>(k, c). (k, fst (pushOne s env t bp c))) cs"
  by (induction cs) (auto split: prod.splits)

lemma pushLoop_count:
  "fst (snd (pushLoop s env t bp cs)) = sum_list (map (\<lambda>(k, c). fst (snd (pushOne s env t bp c))) cs)"
  by (induction cs) (auto split: prod.splits)

lemma pushLoop_effects:
  "snd (snd (pushLoop s env t bp cs)) = concat (map (\<lambda>(k, c). snd (snd (pushOne s env t bp c))) cs)"
  by (induction cs) (auto split: prod.splits)

lemma pushOne_client:
  "fst (pushOne s env t bp c) = (if due s t c then c\<lparr>lastSentAt := t\<rparr> else c)"
  by (simp add: pushOne_def due_def Let_def split: cat_mode.splits option.splits)

lemma pushOne_no_fetch: "FetchCatBytes \<notin> set (snd (snd (pushOne s env t bp c)))"
  by (simp add: pushOne_def Let_def split: cat_mode.splits option.splits)

lemma pushLoop_no_fetch: "FetchCatBytes \<notin> set (snd (snd (pushLoop s env t bp cs)))"
  by (auto simp: pushLoop_effects pushOne_no_fetch)

lemma broadcastSse_no_fetch: "FetchCatBytes \<notin> set (broadcastSse s m)"
  by (auto simp: broadcastSse_def split: if_splits)

lemma sendAllOpen_no_fetch: "FetchCatBytes \<notin> set (sendAllOpen s m)"
  by (auto simp: sendAllOpen_def split: if_splits)

lemma tickRest_no_fetch: "FetchCatBytes \<notin> set (snd (tickRest s env t bp))"
  by (simp add: tickRest_def Let_def split_beta pushLoop_no_fetch broadcastSse_no_fetch)

lemma afterFetch_no_fetch: "FetchCatBytes \<notin> set (snd (afterFetch s env t))"
  by (simp add: afterFetch_def Let_def split_beta tickRest_no_fetch sendAllOpen_no_fetch
      split: sum.splits)

lemma someoneWantsBin_nonempty: "someoneWantsBin s \<Longrightarrow> clients s \<noteq> []"
  by (auto simp: someoneWantsBin_def)

lemma tick_fetch_count:
  "count_list (snd (tick s env t s2)) FetchCatBytes = (if someoneWantsBin s then 1 else 0)"
  using afterFetch_no_fetch[of s2 env t] tickRest_no_fetch[of s env t None]
  by (auto simp: tick_def split_beta count_list_0_iff dest: someoneWantsBin_nonempty)


lemma attempts_append: "attempts (xs @ ys) = attempts xs @ attempts ys"
  by (simp add: attempts_def map_filter_def)

lemma attempts_concat: "attempts (concat xss) = concat (map attempts xss)"
  by (induction xss) (simp_all add: attempts_append, simp add: attempts_def map_filter_def)

lemma attempts_broadcastSse: "attempts (broadcastSse s m) = []"
  by (simp add: broadcastSse_def attempts_concat)
     (auto simp: attempts_def map_filter_def split: if_splits)

lemma attempts_pushOne:
  "attempts (snd (snd (pushOne s env t bp c))) =
     (if due s t c then
        (case mode c of
           Url \<Rightarrow> [(ws c, MsgCatUrl (randomCatUrl env (ws c)) t)]
         | Bin \<Rightarrow>
             (case bp of
                None \<Rightarrow> []
              | Some p \<Rightarrow>
                  (ws c, MsgCatBin (ptype p) t)
                  # (if sendThrows env (ws c) 0 then [] else [(ws c, BinaryFrame (bytes p))])))
      else [])"
  by (simp add: pushOne_def due_def Let_def attempts_def map_filter_def
      split: cat_mode.splits option.splits)

lemma tickRest_clients:
  "clients (fst (tickRest s env t bp)) =
     map (\<lambda>(k, c). (k, if due s t c then c\<lparr>lastSentAt := t\<rparr> else c)) (clients s)"
  by (simp add: tickRest_def Let_def split_beta pushLoop_clients pushOne_client)

lemma tickRest_attempts:
  "attempts (snd (tickRest s env t bp)) =
     concat (map (\<lambda>(k, c). attempts (snd (snd (pushOne s env t bp c)))) (clients s))"
  by (simp add: tickRest_def Let_def case_prod_unfold pushLoop_effects attempts_append
      attempts_concat attempts_broadcastSse comp_def)

lemma tickRest_pushOne_effect:
  "(k, c) \<in> set (clients s) \<Longrightarrow> e \<in> set (snd (snd (pushOne s env t bp c)))
     \<Longrightarrow> e \<in> set (snd (tickRest s env t bp))"
  by (force simp: tickRest_def Let_def split_beta pushLoop_effects)


lemma afterFetch_ok:
  "fetchResult env = Inr p \<Longrightarrow> afterFetch s env t = tickRest s env t (Some p)"
  by (simp add: afterFetch_def)

lemma due_errors [simp]: "due (s\<lparr>state := st\<rparr>) t c = due s t c"
  by (simp add: due_def)

lemma pushOne_state [simp]: "pushOne (s\<lparr>state := st\<rparr>) env t bp c = pushOne s env t bp c"
  by (simp add: pushOne_def)

lemma filter_nonempty_ex: "1 \<le> length (filter P xs) \<Longrightarrow> \<exists>x \<in> set xs. P x"
  by (induction xs) (auto split: if_splits)

lemma afterFetch_failed:
  "fetchResult env = Inl e \<Longrightarrow>
   afterFetch s env t =
     (fst (tickRest (s\<lparr>state := (state s)\<lparr>errors := errors (state s) + 1\<rparr>\<rparr>) env t None),
      sendAllOpen s (MsgError e)
      @ snd (tickRest (s\<lparr>state := (state s)\<lparr>errors := errors (state s) + 1\<rparr>\<rparr>) env t None))"
  by (simp add: afterFetch_def Let_def split_beta sendAllOpen_def)

lemma tickRest_errors: "errors (state (fst (tickRest s env t bp))) = errors (state s)"
  by (simp add: tickRest_def Let_def split_beta)

lemma set_sendAllOpen:
  "set (sendAllOpen s m) = {Send (ws c) m | k c. (k, c) \<in> set (clients s) \<and> readyState s (ws c) = OPEN}"
  by (auto simp: sendAllOpen_def split: if_splits)

lemma attempts_sendAllOpen:
  "set (attempts (sendAllOpen s m)) \<subseteq> {(sock, m) | sock. True}"
  by (auto simp: sendAllOpen_def attempts_concat attempts_def map_filter_def split: if_splits)

lemma attempts_Cons:
  "attempts (e # es) = (case send_of e of None \<Rightarrow> attempts es | Some x \<Rightarrow> x # attempts es)"
  by (simp add: attempts_def map_filter_def split: option.splits)

lemma Send_in_attempts: "Send sock m \<in> set es \<Longrightarrow> (sock, m) \<in> set (attempts es)"
  by (induction es) (auto simp: attempts_def map_filter_def)

lemma tickRest_attempt_due:
  assumes "(sock, m) \<in> set (attempts (snd (tickRest s env t bp)))"
  shows "is_push m \<and> (\<exists>(k, c) \<in> set (clients s). ws c = sock \<and> due s t c)"
proof -
  from assms obtain k c where kc: "(k, c) \<in> set (clients s)"
    and m: "(sock, m) \<in> set (attempts (snd (snd (pushOne s env t bp c))))"
    by (auto simp: tickRest_attempts)
  from m have "is_push m \<and> ws c = sock \<and> due s t c"
    by (cases "mode c"; cases bp) (auto simp: attempts_pushOne split: if_splits)
  with kc show ?thesis by blast
qed

lemma tickRest_no_bin_push:
  "(sock, m) \<in> set (attempts (snd (tickRest s env t None))) \<Longrightarrow> \<not> is_bin_push m"
proof -
  assume "(sock, m) \<in> set (attempts (snd (tickRest s env t None)))"
  then obtain k c where "(sock, m) \<in> set (attempts (snd (snd (pushOne s env t None c))))"
    by (auto simp: tickRest_attempts)
  then show ?thesis
    by (cases "mode c") (auto simp: attempts_pushOne split: if_splits)
qed

lemma tickRest_url_push:
  assumes "(k, c) \<in> set (clients s)" "mode c = Url" "due s t c"
  shows "(ws c, MsgCatUrl (randomCatUrl env (ws c)) t) \<in> set (attempts (snd (tickRest s env t bp)))
    \<and> (\<not> sendThrows env (ws c) 0 \<longrightarrow>
         Send (ws c) (MsgCatUrl (randomCatUrl env (ws c)) t) \<in> set (snd (tickRest s env t bp)))"
proof -
  have "(ws c, MsgCatUrl (randomCatUrl env (ws c)) t) \<in> set (attempts (snd (tickRest s env t bp)))"
    using assms by (force simp: tickRest_attempts attempts_pushOne)
  moreover have "Send (ws c) (MsgCatUrl (randomCatUrl env (ws c)) t) \<in> set (snd (tickRest s env t bp))"
    if "\<not> sendThrows env (ws c) 0"
    using assms that
    by (auto intro!: tickRest_pushOne_effect[OF assms(1)] simp: pushOne_def due_def Let_def)
  ultimately show ?thesis by blast
qed




section \<open>The sample states, evaluated\<close>

lemma ex_two_open_eq:
  "ex_two_open = \<lparr>config = bin_config,
     state = (makeState 0)\<lparr>httpRequests := 2, wsConnections := 2\<rparr>,
     clients = [(''a'', \<lparr>ws = 1, client_id = ''a'', intervalMs = Finite 2500, paused = False,
                  lastSentAt = 0, mode = Bin\<rparr>),
                (''b'', \<lparr>ws = 2, client_id = ''b'', intervalMs = Finite 2500, paused = False,
                  lastSentAt = 0, mode = Bin\<rparr>)],
     sseClients = [], ticker = Some 7,
     readyState = (\<lambda>_. CLOSED)(1 := OPEN, 2 := OPEN), ctrlClosed = (\<lambda>_. False)\<rparr>"
  by (simp add: ex_two_open_def run_def init_def serve_ws_def withLog_def count_request_def handleWs_def
      originAllowed_def
      plain_request_def bin_config_def DEFAULTS_def startTickerIfNeeded_def makeState_def Let_def
      fun_upd_twist)


lemmas tick_eval = tick_def someoneWantsBin_def afterFetch_def tickRest_def pushOne_def
  broadcastSse_def sendAllOpen_def Let_def

lemma ex_two_open_tick:
  "snd (tick ex_two_open env_fetch_ok 5000 ex_two_open) =
     [FetchCatBytes, Send 1 (MsgCatBin ''image/jpeg'' 5000), Send 1 (BinaryFrame [255, 216, 255]),
      Send 2 (MsgCatBin ''image/jpeg'' 5000), Send 2 (BinaryFrame [255, 216, 255])]"
  by (simp add: ex_two_open_eq env_fetch_ok_def tick_eval)

lemma ex_one_closing_eq:
  "ex_one_closing = \<lparr>config = bin_config,
     state = (makeState 0)\<lparr>httpRequests := 1, wsConnections := 1\<rparr>,
     clients = [(''a'', \<lparr>ws = 1, client_id = ''a'', intervalMs = Finite 2500, paused = False,
                  lastSentAt = 0, mode = Bin\<rparr>)],
     sseClients = [], ticker = Some 7,
     readyState = (\<lambda>_. CLOSED)(1 := CLOSING), ctrlClosed = (\<lambda>_. False)\<rparr>"
  by (simp add: ex_one_closing_def run_def init_def serve_ws_def withLog_def count_request_def handleWs_def
      originAllowed_def
      plain_request_def bin_config_def DEFAULTS_def startTickerIfNeeded_def makeState_def Let_def)


lemma ex_open_connecting_eq:
  "ex_open_connecting = \<lparr>config = bin_config,
     state = (makeState 0)\<lparr>httpRequests := 2, wsConnections := 2\<rparr>,
     clients = [(''a'', \<lparr>ws = 1, client_id = ''a'', intervalMs = Finite 2500, paused = False,
                  lastSentAt = 0, mode = Bin\<rparr>),
                (''b'', \<lparr>ws = 2, client_id = ''b'', intervalMs = Finite 2500, paused = False,
                  lastSentAt = 0, mode = Bin\<rparr>)],
     sseClients = [], ticker = Some 7,
     readyState = (\<lambda>_. CLOSED)(1 := OPEN, 2 := CONNECTING), ctrlClosed = (\<lambda>_. False)\<rparr>"
  by (simp add: ex_open_connecting_def run_def init_def serve_ws_def withLog_def count_request_def handleWs_def
      originAllowed_def
      plain_request_def bin_config_def DEFAULTS_def startTickerIfNeeded_def makeState_def Let_def)

lemma ex_mixed_eq:
  "ex_mixed = \<lparr>config = bin_config,
     state = (makeState 0)\<lparr>httpRequests := 2, wsConnections := 2, wsMessages := 1\<rparr>,
     clients = [(''a'', \<lparr>ws = 1, client_id = ''a'', intervalMs = Finite 2500, paused = False,
                  lastSentAt = 0, mode = Bin\<rparr>),
                (''b'', \<lparr>ws = 2, client_id = ''b'', intervalMs = Finite 2500, paused = False,
                  lastSentAt = 0, mode = Url\<rparr>)],
     sseClients = [], ticker = Some 7,
     readyState = (\<lambda>_. CLOSED)(1 := OPEN, 2 := OPEN), ctrlClosed = (\<lambda>_. False)\<rparr>"
  by (simp add: ex_mixed_def run_def init_def serve_ws_def withLog_def count_request_def handleWs_def
      originAllowed_def
      plain_request_def bin_config_def DEFAULTS_def startTickerIfNeeded_def makeState_def Let_def
      fun_upd_twist onmessage_def trim_def is_ws_def startsWith_def textCommand_def split_ws_def
      toLowerCase_def toLowerChar_def handleCommand_def reply_def)

section \<open>One fetch per tick, one payload for all\<close>

text \<open>
  Claim C1. In a tick at whose start \<open>N \<ge> 1\<close> connections are in \<open>bin\<close> mode and due,
  \<open>fetchCatBytes\<close> is called exactly once, whatever \<open>N\<close> is. When the fetch yields the
  payload \<open>p\<close>, the push of \<open>p\<close> is attempted on every connection that is in \<open>bin\<close> mode
  and due when the tick resumes: the header with \<open>p\<close>'s type is offered to its socket,
  and where neither send throws both the header and the bytes of \<open>p\<close> are sent; and no
  header or binary frame of the tick carries anything but \<open>p\<close>.
\<close>

theorem single_fetch_shared:
  assumes n: "length (filter (\<lambda>(k, c). mode c = Bin \<and> due s t c) (clients s)) = N"
    and pos: "1 \<le> N"
    and run: "tick s env t s2 = (s', es)"
  shows "count_list es FetchCatBytes = 1 \<and>
    (\<forall>p. fetchResult env = Inr p \<longrightarrow>
       (\<forall>(k, c) \<in> set (clients s2). mode c = Bin \<and> due s2 t c \<longrightarrow>
          (ws c, MsgCatBin (ptype p) t) \<in> set (attempts es) \<and>
          (\<not> sendThrows env (ws c) 0 \<and> \<not> sendThrows env (ws c) 1 \<longrightarrow>
             Send (ws c) (MsgCatBin (ptype p) t) \<in> set es \<and>
             Send (ws c) (BinaryFrame (bytes p)) \<in> set es)) \<and>
       (\<forall>(sock, m) \<in> set (attempts es). is_bin_push m \<longrightarrow>
          m = MsgCatBin (ptype p) t \<or> m = BinaryFrame (bytes p)))"
proof -
  from n pos obtain k c where kc: "(k, c) \<in> set (clients s)" "mode c = Bin" "due s t c"
    using filter_nonempty_ex[of "\<lambda>(k, c). mode c = Bin \<and> due s t c" "clients s"] by auto
  then have wants: "someoneWantsBin s"
    by (auto simp: someoneWantsBin_def due_def list_ex_iff)
  have cnt: "count_list es FetchCatBytes = 1"
    using tick_fetch_count[of s env t s2] wants run by simp
  have es: "es = FetchCatBytes # snd (afterFetch s2 env t)"
    using run wants someoneWantsBin_nonempty[OF wants] by (auto simp: tick_def split_beta)
  have shared: "(ws c, MsgCatBin (ptype p) t) \<in> set (attempts es) \<and>
          (\<not> sendThrows env (ws c) 0 \<and> \<not> sendThrows env (ws c) 1 \<longrightarrow>
             Send (ws c) (MsgCatBin (ptype p) t) \<in> set es \<and>
             Send (ws c) (BinaryFrame (bytes p)) \<in> set es)"
    if ok: "fetchResult env = Inr p" and c: "(k, c) \<in> set (clients s2)" "mode c = Bin" "due s2 t c"
    for p k c
  proof -
    have a: "(ws c, MsgCatBin (ptype p) t) \<in> set (attempts (snd (tickRest s2 env t (Some p))))"
      using c by (force simp: tickRest_attempts attempts_pushOne)
    have b: "Send (ws c) (MsgCatBin (ptype p) t) \<in> set (snd (tickRest s2 env t (Some p))) \<and>
             Send (ws c) (BinaryFrame (bytes p)) \<in> set (snd (tickRest s2 env t (Some p)))"
      if "\<not> sendThrows env (ws c) 0" "\<not> sendThrows env (ws c) 1"
      using c that
      by (auto intro!: tickRest_pushOne_effect[OF c(1)] simp: pushOne_def due_def Let_def)
    show ?thesis using a b by (simp add: es afterFetch_ok[OF ok] attempts_def map_filter_def)
  qed
  have only: "m = MsgCatBin (ptype p) t \<or> m = BinaryFrame (bytes p)"
    if ok: "fetchResult env = Inr p" and m: "(sock, m) \<in> set (attempts es)" "is_bin_push m"
    for p sock m
  proof -
    from m(1) have "(sock, m) \<in> set (attempts (snd (tickRest s2 env t (Some p))))"
      by (simp add: es afterFetch_ok[OF ok] attempts_def map_filter_def)
    then obtain k c where "(k, c) \<in> set (clients s2)"
      and "(sock, m) \<in> set (attempts (snd (snd (pushOne s2 env t (Some p) c))))"
      by (auto simp: tickRest_attempts)
    then show ?thesis using m(2)
      by (cases "mode c") (auto simp: attempts_pushOne split: if_splits)
  qed
  show ?thesis using cnt shared only by blast
qed

theorem single_fetch_shared_witness:
  "length (filter (\<lambda>(k, c). mode c = Bin \<and> due ex_two_open 5000 c) (clients ex_two_open)) = 2
   \<and> count_list (snd (tick ex_two_open env_fetch_ok 5000 ex_two_open)) FetchCatBytes = 1
   \<and> Send 1 (MsgCatBin ''image/jpeg'' 5000) \<in> set (snd (tick ex_two_open env_fetch_ok 5000 ex_two_open))
   \<and> Send 2 (BinaryFrame [255, 216, 255]) \<in> set (snd (tick ex_two_open env_fetch_ok 5000 ex_two_open))"
proof -
  have n: "length (filter (\<lambda>(k, c). mode c = Bin \<and> due ex_two_open 5000 c) (clients ex_two_open)) = 2"
    by (simp add: ex_two_open_eq due_def)
  have pos: "1 \<le> (2::nat)" by simp
  note th = single_fetch_shared[OF n pos surjective_pairing, of env_fetch_ok ex_two_open]
  have ok: "fetchResult env_fetch_ok = Inr \<lparr>ptype = ''image/jpeg'', bytes = [255, 216, 255]\<rparr>"
    by (simp add: env_fetch_ok_def)
  have a: "(''a'', \<lparr>ws = 1, client_id = ''a'', intervalMs = Finite 2500, paused = False,
                  lastSentAt = 0, mode = Bin\<rparr>) \<in> set (clients ex_two_open)"
    and b: "(''b'', \<lparr>ws = 2, client_id = ''b'', intervalMs = Finite 2500, paused = False,
                  lastSentAt = 0, mode = Bin\<rparr>) \<in> set (clients ex_two_open)"
    by (simp_all add: ex_two_open_eq)
  have nt: "\<not> sendThrows env_fetch_ok 1 0" "\<not> sendThrows env_fetch_ok 1 1"
    "\<not> sendThrows env_fetch_ok 2 0" "\<not> sendThrows env_fetch_ok 2 1"
    by (simp_all add: env_fetch_ok_def)
  have da: "due ex_two_open 5000 \<lparr>ws = 1, client_id = ''a'', intervalMs = Finite 2500, paused = False,
                  lastSentAt = 0, mode = Bin\<rparr>"
    and db: "due ex_two_open 5000 \<lparr>ws = 2, client_id = ''b'', intervalMs = Finite 2500, paused = False,
                  lastSentAt = 0, mode = Bin\<rparr>"
    by (simp_all add: ex_two_open_eq due_def)
  from th have cnt: "count_list (snd (tick ex_two_open env_fetch_ok 5000 ex_two_open)) FetchCatBytes = 1"
    by (rule conjunct1)
  from th ok a da nt have "Send 1 (MsgCatBin ''image/jpeg'' 5000)
      \<in> set (snd (tick ex_two_open env_fetch_ok 5000 ex_two_open))"
    by fastforce
  moreover from th ok b db nt have "Send 2 (BinaryFrame [255, 216, 255])
      \<in> set (snd (tick ex_two_open env_fetch_ok 5000 ex_two_open))"
    by fastforce
  ultimately show ?thesis using n cnt by simp
qed

section \<open>A tick whose fetch fails\<close>

text \<open>
  Claim C2, as stated, fails: not every connection in \<open>bin\<close> mode is notified. With
  \<open>bin\<close> as the configured mode, connection \<open>a\<close> open and connection \<open>b\<close> registered but
  its socket still CONNECTING, a tick whose fetch fails sends the error to \<open>a\<close> alone;
  \<open>b\<close>, in \<open>bin\<close> mode and not paused, gets nothing.
\<close>

theorem fetch_failure_counterexample:
  "clients ex_open_connecting =
     [(''a'', \<lparr>ws = 1, client_id = ''a'', intervalMs = Finite 2500, paused = False,
         lastSentAt = 0, mode = Bin\<rparr>),
      (''b'', \<lparr>ws = 2, client_id = ''b'', intervalMs = Finite 2500, paused = False,
         lastSentAt = 0, mode = Bin\<rparr>)]
   \<and> readyState ex_open_connecting 1 = OPEN
   \<and> readyState ex_open_connecting 2 = CONNECTING
   \<and> fetchResult env_fetch_fails = Inl ''upstream down''
   \<and> snd (tick ex_open_connecting env_fetch_fails 5000 ex_open_connecting) =
       [FetchCatBytes, Send 1 (MsgError ''upstream down'')]"
  by (simp add: ex_open_connecting_eq env_fetch_fails_def tick_eval)

text \<open>
  Claim C2, amended. In a tick that starts the fetch and whose fetch fails with the text
  \<open>e\<close>: \<open>fetchCatBytes\<close> was called once and the error counter goes up by exactly 1;
  the error message is sent to every registered connection whose socket is open,
  whatever its mode, and to no socket that is not open; no header or binary frame is
  offered to any socket; and the push to every due connection in \<open>url\<close> mode is attempted,
  and sent where the send does not throw.
\<close>

theorem fetch_failure_tick:
  assumes wants: "someoneWantsBin s" and failed: "fetchResult env = Inl e"
    and run: "tick s env t s2 = (s', es)"
  shows "count_list es FetchCatBytes = 1
    \<and> errors (state s') = errors (state s2) + 1
    \<and> (\<forall>(k, c) \<in> set (clients s2). readyState s2 (ws c) = OPEN \<longrightarrow> Send (ws c) (MsgError e) \<in> set es)
    \<and> (\<forall>sock. Send sock (MsgError e) \<in> set es \<longrightarrow> readyState s2 sock = OPEN)
    \<and> (\<forall>(sock, m) \<in> set (attempts es). \<not> is_bin_push m)
    \<and> (\<forall>(k, c) \<in> set (clients s2). mode c = Url \<and> due s2 t c \<longrightarrow>
          (ws c, MsgCatUrl (randomCatUrl env (ws c)) t) \<in> set (attempts es) \<and>
          (\<not> sendThrows env (ws c) 0 \<longrightarrow>
             Send (ws c) (MsgCatUrl (randomCatUrl env (ws c)) t) \<in> set es))"
proof -
  let ?s1 = "s2\<lparr>state := (state s2)\<lparr>errors := errors (state s2) + 1\<rparr>\<rparr>"
  let ?rest = "tickRest ?s1 env t None"
  have unf: "tick s env t s2 = (fst ?rest, FetchCatBytes # sendAllOpen s2 (MsgError e) @ snd ?rest)"
    using wants someoneWantsBin_nonempty[OF wants] afterFetch_failed[OF failed, of s2 t]
    by (simp add: tick_def)
  with run have s': "s' = fst ?rest" and es: "es = FetchCatBytes # sendAllOpen s2 (MsgError e) @ snd ?rest"
    by simp_all
  have cnt: "count_list es FetchCatBytes = 1"
    using tick_fetch_count[of s env t s2] wants run by simp
  have err: "errors (state s') = errors (state s2) + 1"
    by (simp add: s' tickRest_errors)
  have notified: "Send (ws c) (MsgError e) \<in> set es"
    if "(k, c) \<in> set (clients s2)" "readyState s2 (ws c) = OPEN" for k c
    using that by (auto simp: es set_sendAllOpen)
  have only_open: "readyState s2 sock = OPEN" if "Send sock (MsgError e) \<in> set es" for sock
  proof -
    from that have "Send sock (MsgError e) \<in> set (sendAllOpen s2 (MsgError e))
        \<or> Send sock (MsgError e) \<in> set (snd ?rest)"
      by (simp add: es)
    then show ?thesis
    proof
      assume "Send sock (MsgError e) \<in> set (sendAllOpen s2 (MsgError e))"
      then show ?thesis by (auto simp: set_sendAllOpen)
    next
      assume "Send sock (MsgError e) \<in> set (snd ?rest)"
      then have "is_push (MsgError e)"
        using tickRest_attempt_due[OF Send_in_attempts] by blast
      then show ?thesis by simp
    qed
  qed
  have att: "set (attempts es) = set (attempts (sendAllOpen s2 (MsgError e))) \<union> set (attempts (snd ?rest))"
    by (simp add: es attempts_Cons attempts_append)
  have nobin: "\<not> is_bin_push m" if "(sock, m) \<in> set (attempts es)" for sock m
    using that attempts_sendAllOpen[of s2 "MsgError e"] tickRest_no_bin_push[of sock m ?s1 env t]
    by (auto simp: att)
  have url: "(ws c, MsgCatUrl (randomCatUrl env (ws c)) t) \<in> set (attempts es) \<and>
          (\<not> sendThrows env (ws c) 0 \<longrightarrow>
             Send (ws c) (MsgCatUrl (randomCatUrl env (ws c)) t) \<in> set es)"
    if "(k, c) \<in> set (clients s2)" "mode c = Url" "due s2 t c" for k c
  proof -
    have sub: "set (attempts (snd ?rest)) \<subseteq> set (attempts es)" "set (snd ?rest) \<subseteq> set es"
      by (auto simp: es attempts_Cons attempts_append)
    from that have "(k, c) \<in> set (clients ?s1)" "due ?s1 t c" by simp_all
    from tickRest_url_push[OF this(1) that(2) this(2), of env None] sub show ?thesis by blast
  qed
  show ?thesis using cnt err notified only_open nobin url by blast
qed

theorem fetch_failure_tick_witness:
  "someoneWantsBin ex_mixed \<and> fetchResult env_fetch_fails = Inl ''upstream down''
   \<and> errors (state (fst (tick ex_mixed env_fetch_fails 5000 ex_mixed))) = errors (state ex_mixed) + 1
   \<and> Send 1 (MsgError ''upstream down'') \<in> set (snd (tick ex_mixed env_fetch_fails 5000 ex_mixed))
   \<and> Send 2 (MsgCatUrl ''https://cataas.com/cat'' 5000)
        \<in> set (snd (tick ex_mixed env_fetch_fails 5000 ex_mixed))"
proof -
  have wants: "someoneWantsBin ex_mixed"
    by (simp add: ex_mixed_eq someoneWantsBin_def)
  have failed: "fetchResult env_fetch_fails = Inl ''upstream down''"
    by (simp add: env_fetch_fails_def)
  note th = fetch_failure_tick[OF wants failed surjective_pairing, of 5000 ex_mixed]
  have a: "(''a'', \<lparr>ws = 1, client_id = ''a'', intervalMs = Finite 2500, paused = False,
                  lastSentAt = 0, mode = Bin\<rparr>) \<in> set (clients ex_mixed)"
    and b: "(''b'', \<lparr>ws = 2, client_id = ''b'', intervalMs = Finite 2500, paused = False,
                  lastSentAt = 0, mode = Url\<rparr>) \<in> set (clients ex_mixed)"
    by (simp_all add: ex_mixed_eq)
  have oa: "readyState ex_mixed 1 = OPEN"
    and db: "due ex_mixed 5000 \<lparr>ws = 2, client_id = ''b'', intervalMs = Finite 2500, paused = False,
                  lastSentAt = 0, mode = Url\<rparr>"
    and nt: "\<not> sendThrows env_fetch_fails 2 0"
    and url: "randomCatUrl env_fetch_fails 2 = ''https://cataas.com/cat''"
    by (simp_all add: ex_mixed_eq due_def env_fetch_fails_def)
  from th have "errors (state (fst (tick ex_mixed env_fetch_fails 5000 ex_mixed))) = errors (state ex_mixed) + 1"
    by blast
  moreover from th a oa have "Send 1 (MsgError ''upstream down'') \<in> set (snd (tick ex_mixed env_fetch_fails 5000 ex_mixed))"
    by fastforce
  moreover from th b db nt url have "Send 2 (MsgCatUrl ''https://cataas.com/cat'' 5000)
        \<in> set (snd (tick ex_mixed env_fetch_fails 5000 ex_mixed))"
    by fastforce
  ultimately show ?thesis using wants failed by simp
qed

section \<open>The bounds of the interval command\<close>

lemma interval_guard:
  "(\<not> isFinite ms \<or> js_lt ms (Finite 200) \<or> js_lt (Finite 60000) ms) = (\<not> spec_interval_ok ms)"
  by (cases ms) (auto simp: isFinite_def spec_interval_ok_def)

lemma reply_open: "readyState s sock = OPEN \<Longrightarrow> reply s sock m = [Send sock m]"
  by (simp add: reply_def)

lemmas msg_eval = onmessage_def trim_def is_ws_def startsWith_def textCommand_def split_ws_def
  toLowerCase_def toLowerChar_def handleCommand_def reply_def Number_arg0_def isFinite_def Let_def

text \<open>
  Claim C3. For the connection registered under \<open>uid\<close> and every argument of the
  \<open>interval\<close> command, with \<open>ms\<close> the number \<open>Number(args[0])\<close>: the command is accepted
  exactly when \<open>ms\<close> is finite and from 200 to 60000. Then the connection's \<open>intervalMs\<close>
  becomes \<open>ms\<close> and the reply is the ok message carrying \<open>ms\<close>; otherwise the state is
  unchanged and the reply is the error that cites the bound. \<open>reply\<close> sends on the
  handler's socket, which is open when a message is delivered.
\<close>

theorem interval_command:
  assumes reg: "map_of (clients s) uid = Some c"
  shows "handleCommand js sock uid ''interval'' args s =
      (if spec_interval_ok (Number_arg0 js args)
       then (s\<lparr>clients := AList.update uid (c\<lparr>intervalMs := Number_arg0 js args\<rparr>) (clients s)\<rparr>,
             reply s sock (MsgOkInterval (Number_arg0 js args)))
       else (s, reply s sock (MsgError ''interval must be 200..60000 ms'')))
    \<and> map_of (clients (fst (handleCommand js sock uid ''interval'' args s))) uid =
        Some (if spec_interval_ok (Number_arg0 js args)
              then c\<lparr>intervalMs := Number_arg0 js args\<rparr> else c)
    \<and> (readyState s sock = OPEN \<longrightarrow>
        snd (handleCommand js sock uid ''interval'' args s) =
          [Send sock (if spec_interval_ok (Number_arg0 js args)
                      then MsgOkInterval (Number_arg0 js args)
                      else MsgError ''interval must be 200..60000 ms'')])"
proof (cases "spec_interval_ok (Number_arg0 js args)")
  case True
  with interval_guard[of "Number_arg0 js args"]
  have "isFinite (Number_arg0 js args)" "\<not> js_lt (Number_arg0 js args) (Finite 200)"
    "\<not> js_lt (Finite 60000) (Number_arg0 js args)"
    by auto
  with True reg show ?thesis
    by (simp add: handleCommand_def Let_def update_conv' reply_def)
next
  case False
  with interval_guard[of "Number_arg0 js args"]
  have "\<not> isFinite (Number_arg0 js args) \<or> js_lt (Number_arg0 js args) (Finite 200)
    \<or> js_lt (Finite 60000) (Number_arg0 js args)"
    by simp
  with False reg show ?thesis
    by (auto simp: handleCommand_def Let_def reply_def)
qed

theorem interval_command_witness:
  "map_of (clients ex_mixed) ''b'' =
      Some \<lparr>ws = 2, client_id = ''b'', intervalMs = Finite 2500, paused = False,
            lastSentAt = 0, mode = Url\<rparr>
   \<and> handleCommand js_sample 2 ''b'' ''interval'' [''100''] ex_mixed =
      (ex_mixed, [Send 2 (MsgError ''interval must be 200..60000 ms'')])
   \<and> snd (handleCommand js_sample 2 ''b'' ''interval'' [''1200''] ex_mixed) =
      [Send 2 (MsgOkInterval (Finite 1200))]
   \<and> map_of (clients (fst (handleCommand js_sample 2 ''b'' ''interval'' [''1200''] ex_mixed))) ''b'' =
      Some \<lparr>ws = 2, client_id = ''b'', intervalMs = Finite 1200, paused = False,
            lastSentAt = 0, mode = Url\<rparr>
   \<and> snd (onmessage js_sample 2 ''b'' (TextData ''interval 100'') ex_mixed) =
      [Send 2 (MsgError ''interval must be 200..60000 ms'')]"
proof -
  have reg: "map_of (clients ex_mixed) ''b'' =
      Some \<lparr>ws = 2, client_id = ''b'', intervalMs = Finite 2500, paused = False,
            lastSentAt = 0, mode = Url\<rparr>"
    by (simp add: ex_mixed_eq)
  have op: "readyState ex_mixed 2 = OPEN" by (simp add: ex_mixed_eq)
  have lo: "Number_arg0 js_sample [''100''] = Finite 100"
    and hi: "Number_arg0 js_sample [''1200''] = Finite 1200"
    by (simp_all add: Number_arg0_def js_sample_def)
  have bad: "\<not> spec_interval_ok (Finite 100)" and good: "spec_interval_ok (Finite 1200)"
    by (simp_all add: spec_interval_ok_def)
  from interval_command[OF reg, of js_sample 2 "[''100'']"] op lo bad
  have a: "handleCommand js_sample 2 ''b'' ''interval'' [''100''] ex_mixed =
      (ex_mixed, [Send 2 (MsgError ''interval must be 200..60000 ms'')])"
    by (simp add: reply_def)
  note th = interval_command[OF reg, of js_sample 2 "[''1200'']"]
  from th[THEN conjunct2, THEN conjunct2] op hi good
  have b: "snd (handleCommand js_sample 2 ''b'' ''interval'' [''1200''] ex_mixed) =
      [Send 2 (MsgOkInterval (Finite 1200))]"
    by simp
  from th[THEN conjunct2, THEN conjunct1] hi good
  have c: "map_of (clients (fst (handleCommand js_sample 2 ''b'' ''interval'' [''1200''] ex_mixed))) ''b'' =
      Some \<lparr>ws = 2, client_id = ''b'', intervalMs = Finite 1200, paused = False,
            lastSentAt = 0, mode = Url\<rparr>"
    by simp
  have d: "snd (onmessage js_sample 2 ''b'' (TextData ''interval 100'') ex_mixed) =
      [Send 2 (MsgError ''interval must be 200..60000 ms'')]"
    by (simp add: ex_mixed_eq js_sample_def msg_eval)
  from reg a b c d show ?thesis by simp
qed

section \<open>The capacity of the registry\<close>

lemma ex_full_eq:
  "ex_full = \<lparr>config = strict_config,
     state = (makeState 0)\<lparr>httpRequests := 1, wsConnections := 1\<rparr>,
     clients = [(''a'', \<lparr>ws = 1, client_id = ''a'', intervalMs = Finite 2500, paused = False,
                  lastSentAt = 0, mode = Url\<rparr>)],
     sseClients = [], ticker = Some 7,
     readyState = (\<lambda>_. CLOSED)(1 := CONNECTING), ctrlClosed = (\<lambda>_. False)\<rparr>"
  by (simp add: ex_full_def run_def init_def serve_ws_def withLog_def count_request_def handleWs_def
      originAllowed_def
      plain_request_def strict_config_def DEFAULTS_def startTickerIfNeeded_def makeState_def Let_def)

text \<open>
  Claim C4, as stated, fails: a request that arrives when the registry is full is not
  always refused with the capacity error. The origin is checked first, so a request
  from an origin that is not allowed is refused with status 403, full or not.
\<close>

theorem capacity_counterexample:
  "int (length (clients ex_full)) \<ge> max_clients (config ex_full)
   \<and> handleWs foreign_request 2 ''b'' 8 ex_full = (Inr (Text ''Origin not allowed'' 403), ex_full)"
  by (simp add: ex_full_eq handleWs_def originAllowed_def foreign_request_def strict_config_def
      DEFAULTS_def)

text \<open>
  Claim C4, amended. A request whose origin is not allowed is refused with status 403.
  A request whose origin is allowed is refused with the capacity error, status 429, when
  the registry holds at least \<open>max_clients\<close> entries; in both refusals the state, hence
  the registry, is unchanged. When the origin is allowed, the registry holds fewer than
  \<open>max_clients\<close> entries and the request is an upgrade, the connection is created with
  the configured interval and mode and registered under its id, the other entries stay,
  and the count of accepted connections goes up by one.
\<close>

theorem registration_bound:
  "(\<not> originAllowed (config s) (origin req) \<longrightarrow>
      handleWs req sock uid timer s = (Inr (Text ''Origin not allowed'' 403), s))
   \<and> (originAllowed (config s) (origin req) \<and> int (length (clients s)) \<ge> max_clients (config s) \<longrightarrow>
      handleWs req sock uid timer s = (Inr (Text ''Too many clients'' 429), s))
   \<and> (originAllowed (config s) (origin req) \<and> int (length (clients s)) < max_clients (config s)
        \<and> isUpgrade req \<longrightarrow>
      fst (handleWs req sock uid timer s) = Inr Upgraded
      \<and> map_of (clients (snd (handleWs req sock uid timer s))) uid =
          Some \<lparr>ws = sock, client_id = uid,
                intervalMs = Finite (real_of_int (cat_interval_ms (config s))),
                paused = False, lastSentAt = 0, mode = cat_mode (config s)\<rparr>
      \<and> (\<forall>k. k \<noteq> uid \<longrightarrow>
            map_of (clients (snd (handleWs req sock uid timer s))) k = map_of (clients s) k)
      \<and> wsConnections (state (snd (handleWs req sock uid timer s))) = wsConnections (state s) + 1)"
  by (simp add: handleWs_def Let_def startTickerIfNeeded_def update_conv')

theorem registration_bound_witness:
  "handleWs plain_request 2 ''b'' 8 ex_full = (Inr (Text ''Too many clients'' 429), ex_full)
   \<and> fst (handleWs plain_request 1 ''a'' 7 (init strict_config 0)) = Inr Upgraded
   \<and> map_of (clients (snd (handleWs plain_request 1 ''a'' 7 (init strict_config 0)))) ''a'' =
      Some \<lparr>ws = 1, client_id = ''a'', intervalMs = Finite 2500, paused = False,
            lastSentAt = 0, mode = Url\<rparr>
   \<and> handleWs foreign_request 1 ''a'' 7 (init strict_config 0) =
      (Inr (Text ''Origin not allowed'' 403), init strict_config 0)"
proof -
  have ok: "originAllowed (config ex_full) (origin plain_request)"
    "originAllowed (config (init strict_config 0)) (origin plain_request)"
    and no: "\<not> originAllowed (config (init strict_config 0)) (origin foreign_request)"
    by (simp_all add: originAllowed_def plain_request_def foreign_request_def init_def
        strict_config_def DEFAULTS_def)
  have full: "int (length (clients ex_full)) \<ge> max_clients (config ex_full)"
    by (simp add: ex_full_eq strict_config_def DEFAULTS_def)
  have room: "int (length (clients (init strict_config 0))) < max_clients (config (init strict_config 0))"
    "isUpgrade plain_request"
    by (simp_all add: init_def strict_config_def DEFAULTS_def plain_request_def)
  have cfg: "cat_interval_ms (config (init strict_config 0)) = 2500"
    "cat_mode (config (init strict_config 0)) = Url"
    by (simp_all add: init_def strict_config_def DEFAULTS_def)
  from registration_bound[of ex_full plain_request 2 "''b''" 8] ok full
  have a: "handleWs plain_request 2 ''b'' 8 ex_full = (Inr (Text ''Too many clients'' 429), ex_full)"
    by simp
  from registration_bound[of "init strict_config 0" plain_request 1 "''a''" 7] ok room cfg
  have b: "fst (handleWs plain_request 1 ''a'' 7 (init strict_config 0)) = Inr Upgraded"
    and c: "map_of (clients (snd (handleWs plain_request 1 ''a'' 7 (init strict_config 0)))) ''a'' =
      Some \<lparr>ws = 1, client_id = ''a'', intervalMs = Finite 2500, paused = False,
            lastSentAt = 0, mode = Url\<rparr>"
    by simp_all
  from registration_bound[of "init strict_config 0" foreign_request 1 "''a''" 7] no
  have d: "handleWs foreign_request 1 ''a'' 7 (init strict_config 0) =
      (Inr (Text ''Origin not allowed'' 403), init strict_config 0)"
    by simp
  from a b c d show ?thesis by simp
qed

section \<open>The dispatcher runs exactly while the registry is non-empty\<close>

lemma handleWs_clients:
  "clients (snd (handleWs req sock uid timer s)) = clients s \<and> ticker (snd (handleWs req sock uid timer s)) = ticker s
   \<or> clients (snd (handleWs req sock uid timer s)) \<noteq> [] \<and> ticker (snd (handleWs req sock uid timer s)) \<noteq> None"
  by (cases "clients s") (auto simp: handleWs_def Let_def startTickerIfNeeded_def)

lemma serve_ws_clients:
  "clients (snd (serve_ws req sock uid timer s)) = clients s \<and> ticker (snd (serve_ws req sock uid timer s)) = ticker s
   \<or> clients (snd (serve_ws req sock uid timer s)) \<noteq> [] \<and> ticker (snd (serve_ws req sock uid timer s)) \<noteq> None"
  using handleWs_clients[of req sock uid timer "count_request s"]
  by (auto simp: serve_ws_def withLog_def count_request_def split: prod.splits sum.splits)

lemma cleanup_ticker:
  "ticker (cleanup uid s) = (if AList.delete uid (clients s) = [] then None else ticker s)"
  "clients (cleanup uid s) = AList.delete uid (clients s)"
  by (auto simp: cleanup_def stopTickerIfNoClients_def)

lemma delete_nonempty: "AList.delete k al \<noteq> [] \<Longrightarrow> al \<noteq> []"
  by (cases al) auto

lemma update_nonempty: "AList.update k v al \<noteq> []"
  by (cases al) auto

lemma handleCommand_frame:
  "ticker (fst (handleCommand js sock uid cmd args s)) = ticker s
   \<and> (clients (fst (handleCommand js sock uid cmd args s)) = []) = (clients s = [])"
proof (cases "map_of (clients s) uid")
  case None
  then show ?thesis by (simp add: handleCommand_def)
next
  case (Some c)
  then have "clients s \<noteq> []" by auto
  with Some show ?thesis
    by (auto simp: handleCommand_def Let_def update_nonempty)
qed

lemma onmessage_frame:
  "ticker (fst (onmessage js sock uid d s)) = ticker s
   \<and> (clients (fst (onmessage js sock uid d s)) = []) = (clients s = [])"
proof -
  let ?s = "s\<lparr>state := (state s)\<lparr>wsMessages := wsMessages (state s) + 1\<rparr>\<rparr>"
  have t: "ticker (fst (textCommand js sock uid str ?s)) = ticker s
     \<and> (clients (fst (textCommand js sock uid str ?s)) = []) = (clients s = [])" for str
    using handleCommand_frame[of js sock uid _ _ ?s]
    by (simp add: textCommand_def split: list.splits)
  have j: "ticker (fst r) = ticker s \<and> (clients (fst r) = []) = (clients s = [])"
    if "jsonCommand js sock uid obj ?s = Some r" for obj r
    using that handleCommand_frame[of js sock uid _ _ ?s]
    by (auto simp: jsonCommand_def split: option.splits if_splits)
  show ?thesis
    using t j by (simp add: onmessage_def Let_def split: ws_data.splits option.splits)
qed

lemma onConfigChange_frame:
  "ticker (fst (onConfigChange path l s)) = ticker s
   \<and> clients (fst (onConfigChange path l s)) = clients s"
  by (simp add: onConfigChange_def Let_def split: sum.splits)

lemma tickRest_frame:
  "ticker (fst (tickRest s env t bp)) = ticker s
   \<and> (clients (fst (tickRest s env t bp)) = []) = (clients s = [])"
  by (simp add: tickRest_clients) (simp add: tickRest_def Let_def split_beta)

lemma afterFetch_frame:
  "ticker (fst (afterFetch s env t)) = ticker s
   \<and> (clients (fst (afterFetch s env t)) = []) = (clients s = [])"
proof (cases "fetchResult env")
  case (Inl e)
  then show ?thesis using tickRest_frame by (simp add: afterFetch_failed)
next
  case (Inr p)
  then show ?thesis using tickRest_frame by (simp add: afterFetch_ok)
qed

lemma tick_frame:
  "ticker (fst (tick s env t s)) = ticker s
   \<and> (clients (fst (tick s env t s)) = []) = (clients s = [])"
  using afterFetch_frame[of s env t] tickRest_frame[of s env t None]
  by (simp add: tick_def split_beta)

lemma step_running:
  assumes "running s = (clients s \<noteq> [])"
  shows "running (step s e) = (clients (step s e) \<noteq> [])"
proof (cases e)
  case (WsRequest req sock uid timer)
  then show ?thesis
    using assms serve_ws_clients[of req sock uid timer s] by (auto simp: running_def)
next
  case (SocketClosed uid)
  then show ?thesis
    using assms delete_nonempty[of uid "clients s"] by (auto simp: running_def cleanup_ticker)
next
  case (SocketState sock r)
  then show ?thesis using assms by (simp add: running_def)
next
  case (Message js sock uid d)
  then show ?thesis using assms onmessage_frame[of js sock uid d s] by (simp add: running_def)
next
  case (ConfigChanged path l)
  then show ?thesis using assms onConfigChange_frame[of path l s] by (simp add: running_def)
next
  case (TimerFired env t)
  then show ?thesis using assms tick_frame[of s env t] by (auto simp: running_def)
next
  case (FetchSettled env t)
  then show ?thesis using assms afterFetch_frame[of s env t] by (simp add: running_def)
next
  case (SseStarted uid ctl mood)
  then show ?thesis
    using assms by (simp add: running_def serve_events_def handleSse_def withLog_def count_request_def)
next
  case (SseCancelled uid)
  then show ?thesis using assms by (simp add: running_def sse_cancel_def)
qed

lemma run_running:
  "running s = (clients s \<noteq> []) \<Longrightarrow> running (run s evs) = (clients (run s evs) \<noteq> [])"
  unfolding run_def by (induction evs arbitrary: s) (simp_all add: step_running)

lemma init_running: "running (init cfg now) = (clients (init cfg now) \<noteq> [])"
  by (simp add: running_def init_def)

lemma tickRest_empty:
  assumes "clients s = []"
  shows "tickRest s env t bp =
     (s, broadcastSse s (SsePulse ((nowMs env - startedAt (state s)) div 1000) 0
          (catsSent (state s)) (randomMood env)))"
proof -
  have e: "s\<lparr>clients := []\<rparr> = s"
    using assms by simp
  show ?thesis
    using assms by (simp add: tickRest_def Let_def e)
qed

lemma afterFetch_empty:
  assumes "clients s = []"
  shows "fst (afterFetch s env t) =
       s\<lparr>state := (state s)\<lparr>errors := errors (state s)
                      + (case fetchResult env of Inl e \<Rightarrow> 1 | Inr p \<Rightarrow> 0)\<rparr>\<rparr>
     \<and> snd (afterFetch s env t) =
       broadcastSse s (SsePulse ((nowMs env - startedAt (state s)) div 1000) 0
          (catsSent (state s)) (randomMood env))"
proof (cases "fetchResult env")
  case (Inl e)
  let ?s1 = "s\<lparr>state := (state s)\<lparr>errors := errors (state s) + 1\<rparr>\<rparr>"
  have "clients ?s1 = []" using assms by simp
  from tickRest_empty[OF this, of env t None] Inl assms show ?thesis
    by (simp add: afterFetch_failed sendAllOpen_def broadcastSse_def case_prod_unfold)
next
  case (Inr p)
  from tickRest_empty[OF assms, of env t "Some p"] Inr show ?thesis
    by (simp add: afterFetch_ok)
qed

lemma ex_before_close_eq:
  "ex_before_close = \<lparr>config = bin_config,
     state = (makeState 0)\<lparr>httpRequests := 2, wsConnections := 1, errors := 1\<rparr>,
     clients = [(''a'', \<lparr>ws = 1, client_id = ''a'', intervalMs = Finite 2500, paused = False,
                  lastSentAt = 0, mode = Bin\<rparr>)],
     sseClients = [(''s'', \<lparr>sse_id = ''s'', ctrl = 11\<rparr>)], ticker = Some 7,
     readyState = (\<lambda>_. CLOSED)(1 := OPEN), ctrlClosed = (\<lambda>_. False)\<rparr>"
  by (simp add: ex_before_close_def run_def init_def serve_ws_def withLog_def count_request_def
      handleWs_def originAllowed_def plain_request_def bin_config_def DEFAULTS_def
      startTickerIfNeeded_def makeState_def Let_def serve_events_def handleSse_def)

lemma ex_emptied_eq:
  "ex_emptied = \<lparr>config = bin_config,
     state = (makeState 0)\<lparr>httpRequests := 2, wsConnections := 1, errors := 1\<rparr>,
     clients = [],
     sseClients = [(''s'', \<lparr>sse_id = ''s'', ctrl = 11\<rparr>)], ticker = None,
     readyState = (\<lambda>_. CLOSED)(1 := OPEN), ctrlClosed = (\<lambda>_. False)\<rparr>"
  by (simp add: ex_emptied_def ex_before_close_eq cleanup_def stopTickerIfNoClients_def)

text \<open>
  Claim C5, as stated, fails in its last part: dispatcher work does occur with zero
  connections. The timer fires while connection \<open>a\<close> is registered and the tick starts
  its fetch; the socket of \<open>a\<close> closes, which empties the registry and clears the timer;
  then the fetch fails. The suspended tick resumes all the same: it counts the error and
  enqueues the pulse on the event stream.
\<close>

theorem in_flight_tick_counterexample:
  "clients ex_before_close =
     [(''a'', \<lparr>ws = 1, client_id = ''a'', intervalMs = Finite 2500, paused = False,
         lastSentAt = 0, mode = Bin\<rparr>)]
   \<and> ticker ex_before_close = Some 7
   \<and> ex_emptied = step ex_before_close (SocketClosed ''a'')
   \<and> clients ex_emptied = [] \<and> ticker ex_emptied = None
   \<and> errors (state ex_emptied) = 1
   \<and> errors (state (fst (tick ex_before_close env_fetch_fails 5000 ex_emptied))) = 2
   \<and> snd (tick ex_before_close env_fetch_fails 5000 ex_emptied) =
       [FetchCatBytes, Enqueue 11 (SsePulse 5 0 0 ''MeowSockets online'')]
   \<and> step ex_emptied (FetchSettled env_fetch_fails 5000) =
       ex_emptied\<lparr>state := (state ex_emptied)\<lparr>errors := 2\<rparr>\<rparr>"
  by (simp add: ex_emptied_eq ex_before_close_eq env_fetch_fails_def tick_eval makeState_def)
     (simp add: ex_emptied_def ex_before_close_eq cleanup_def stopTickerIfNoClients_def)

text \<open>
  Claim C5, amended. In every state \<open>s\<close> reached from the initial state by any events, the
  dispatcher is running exactly when the registry is non-empty. Hence a request for
  \<open>/ws\<close> starts it exactly when it puts the first entry into an empty registry, and the
  close of a socket stops it exactly when it removes the last entry. On an empty registry
  the timer event changes nothing and the callback itself returns at once: no fetch, no
  send, no change of state. A tick that was suspended in its fetch while the registry was
  non-empty still resumes on an empty registry when the fetch settles: it leaves the
  registry and the timer as they are and sends nothing to any socket, but it counts a
  failed fetch in the error counter and enqueues the pulse on the event streams.
\<close>

theorem ticker_runs_iff_registry_nonempty:
  "let s = run (init cfg now) evs in
     running s = (clients s \<noteq> [])
     \<and> (\<forall>req sock uid timer.
          (\<not> running s \<and> running (step s (WsRequest req sock uid timer)))
          = (clients s = [] \<and> clients (step s (WsRequest req sock uid timer)) \<noteq> []))
     \<and> (\<forall>uid.
          (running s \<and> \<not> running (step s (SocketClosed uid)))
          = (clients s \<noteq> [] \<and> clients (step s (SocketClosed uid)) = []))
     \<and> (clients s = [] \<longrightarrow>
          (\<forall>env t s2. step s (TimerFired env t) = s \<and> tick s env t s2 = (s, []))
          \<and> (\<forall>env t.
                step s (FetchSettled env t) =
                  s\<lparr>state := (state s)\<lparr>errors := errors (state s)
                      + (case fetchResult env of Inl e \<Rightarrow> 1 | Inr p \<Rightarrow> 0)\<rparr>\<rparr>
                \<and> snd (afterFetch s env t) =
                  broadcastSse s (SsePulse ((nowMs env - startedAt (state s)) div 1000) 0
                    (catsSent (state s)) (randomMood env))))"
proof -
  let ?s = "run (init cfg now) evs"
  have inv: "running ?s = (clients ?s \<noteq> [])"
    by (rule run_running[OF init_running])
  have inv': "running (step ?s e) = (clients (step ?s e) \<noteq> [])" for e
    by (rule step_running[OF inv])
  have idle: "step ?s (TimerFired env t) = ?s \<and> tick ?s env t s2 = (?s, [])"
    if "clients ?s = []" for env t s2
    using that by (simp add: tick_def)
  have resumed: "step ?s (FetchSettled env t) =
        ?s\<lparr>state := (state ?s)\<lparr>errors := errors (state ?s)
            + (case fetchResult env of Inl e \<Rightarrow> 1 | Inr p \<Rightarrow> 0)\<rparr>\<rparr>
      \<and> snd (afterFetch ?s env t) =
        broadcastSse ?s (SsePulse ((nowMs env - startedAt (state ?s)) div 1000) 0
          (catsSent (state ?s)) (randomMood env))"
    if "clients ?s = []" for env t
    using afterFetch_empty[OF that, of env t] by simp
  show ?thesis
    unfolding Let_def using inv inv' idle resumed by blast
qed

theorem ticker_runs_iff_registry_nonempty_witness:
  "map (\<lambda>n. (ticker (run (init DEFAULTS 0) (take n two_in_two_out)),
              map fst (clients (run (init DEFAULTS 0) (take n two_in_two_out))))) [0, 1, 2, 3, 4]
     = [(None, []), (Some 7, [''a'']), (Some 7, [''a'', ''b'']), (Some 7, [''b'']), (None, [])]
   \<and> running (run (init DEFAULTS 0) (take 3 two_in_two_out))
   \<and> \<not> running (run (init DEFAULTS 0) two_in_two_out)
   \<and> step (run (init DEFAULTS 0) two_in_two_out) (TimerFired env_fetch_fails 5000) =
       run (init DEFAULTS 0) two_in_two_out
   \<and> errors (state (run (init DEFAULTS 0) two_in_two_out)) = 0
   \<and> errors (state (step (run (init DEFAULTS 0) two_in_two_out)
         (FetchSettled env_fetch_fails 5000))) = 1"
proof -
  have ev: "map (\<lambda>n. (ticker (run (init DEFAULTS 0) (take n two_in_two_out)),
              map fst (clients (run (init DEFAULTS 0) (take n two_in_two_out))))) [0, 1, 2, 3, 4]
     = [(None, []), (Some 7, [''a'']), (Some 7, [''a'', ''b'']), (Some 7, [''b'']), (None, [])]"
    by (simp add: two_in_two_out_def run_def init_def serve_ws_def withLog_def count_request_def
        handleWs_def originAllowed_def plain_request_def DEFAULTS_def startTickerIfNeeded_def
        makeState_def Let_def cleanup_def stopTickerIfNoClients_def)
  then have c3: "clients (run (init DEFAULTS 0) (take 3 two_in_two_out)) \<noteq> []"
    and c4: "clients (run (init DEFAULTS 0) (take 4 two_in_two_out)) = []"
    by auto
  have full: "take 4 two_in_two_out = two_in_two_out" by (simp add: two_in_two_out_def)
  have e0: "errors (state (run (init DEFAULTS 0) two_in_two_out)) = 0"
    by (simp add: two_in_two_out_def run_def init_def serve_ws_def withLog_def count_request_def
        handleWs_def originAllowed_def plain_request_def DEFAULTS_def startTickerIfNeeded_def
        makeState_def Let_def cleanup_def stopTickerIfNoClients_def)
  have failed: "fetchResult env_fetch_fails = Inl ''upstream down''"
    by (simp add: env_fetch_fails_def)
  from ticker_runs_iff_registry_nonempty[of DEFAULTS 0 "take 3 two_in_two_out"] c3
  have r3: "running (run (init DEFAULTS 0) (take 3 two_in_two_out))"
    by (simp add: Let_def)
  note th = ticker_runs_iff_registry_nonempty[of DEFAULTS 0 "take 4 two_in_two_out",
      unfolded Let_def full]
  from th c4[unfolded full]
  have r4: "\<not> running (run (init DEFAULTS 0) two_in_two_out)"
    by simp
  from th c4[unfolded full]
  have idle: "step (run (init DEFAULTS 0) two_in_two_out) (TimerFired env_fetch_fails 5000) =
       run (init DEFAULTS 0) two_in_two_out"
    by blast
  from th c4[unfolded full]
  have "step (run (init DEFAULTS 0) two_in_two_out) (FetchSettled env_fetch_fails 5000) =
      (run (init DEFAULTS 0) two_in_two_out)
        \<lparr>state := (state (run (init DEFAULTS 0) two_in_two_out))
           \<lparr>errors := errors (state (run (init DEFAULTS 0) two_in_two_out))
               + (case fetchResult env_fetch_fails of Inl e \<Rightarrow> 1 | Inr p \<Rightarrow> 0)\<rparr>\<rparr>"
    by blast
  then have e1: "errors (state (step (run (init DEFAULTS 0) two_in_two_out)
         (FetchSettled env_fetch_fails 5000))) = 1"
    by (simp add: failed e0)
  from ev r3 r4 idle e0 e1 show ?thesis by simp
qed

section \<open>Reloading the configuration\<close>

lemma ex_streams_eq:
  "ex_streams = \<lparr>config = bin_config,
     state = (makeState 0)\<lparr>httpRequests := 3, wsConnections := 2, wsMessages := 3,
       errors := 1\<rparr>,
     clients = [(''a'', \<lparr>ws = 1, client_id = ''a'', intervalMs = Finite 2500, paused = True,
                  lastSentAt = 0, mode = Bin\<rparr>),
                (''b'', \<lparr>ws = 2, client_id = ''b'', intervalMs = Finite 1200, paused = False,
                  lastSentAt = 0, mode = Url\<rparr>)],
     sseClients = [(''s'', \<lparr>sse_id = ''s'', ctrl = 11\<rparr>)], ticker = Some 7,
     readyState = (\<lambda>_. CLOSED)(1 := OPEN, 2 := OPEN), ctrlClosed = (\<lambda>_. False)\<rparr>"
  by (simp add: ex_streams_def run_def init_def serve_ws_def withLog_def count_request_def handleWs_def
      originAllowed_def
      plain_request_def bin_config_def DEFAULTS_def startTickerIfNeeded_def makeState_def
      fun_upd_twist msg_eval js_sample_def serve_events_def handleSse_def)

lemma set_broadcastSse:
  "set (broadcastSse s m) = {Enqueue (ctrl sc) m | k sc. (k, sc) \<in> set (sseClients s) \<and> \<not> ctrlClosed s (ctrl sc)}"
  by (auto simp: broadcastSse_def split: if_splits)

text \<open>
  Claim C6. After a reload whose loader returned \<open>cfg\<close>: the configuration is \<open>cfg\<close>
  and the config endpoint answers with the safe view of \<open>cfg\<close>; both registries are
  what they were, so no connection's \<open>intervalMs\<close>, \<open>mode\<close> or \<open>paused\<close> has changed;
  the safe view of \<open>cfg\<close> is sent to every registered connection whose socket is open
  and enqueued on every registered event stream whose controller still accepts.
\<close>

theorem reload_publishes_and_keeps_clients:
  "config (fst (onConfigChange path (Inr cfg) s)) = cfg
   \<and> api_config (fst (onConfigChange path (Inr cfg) s)) = safeConfigForClient cfg
   \<and> clients (fst (onConfigChange path (Inr cfg) s)) = clients s
   \<and> sseClients (fst (onConfigChange path (Inr cfg) s)) = sseClients s
   \<and> (\<forall>(k, c) \<in> set (clients s). readyState s (ws c) = OPEN \<longrightarrow>
         Send (ws c) (MsgConfig (safeConfigForClient cfg)) \<in> set (snd (onConfigChange path (Inr cfg) s)))
   \<and> (\<forall>(k, sc) \<in> set (sseClients s). \<not> ctrlClosed s (ctrl sc) \<longrightarrow>
         Enqueue (ctrl sc) (SseConfig (safeConfigForClient cfg))
           \<in> set (snd (onConfigChange path (Inr cfg) s)))"
  by (auto simp: onConfigChange_def Let_def api_config_def broadcastConfigUpdate_def
      set_sendAllOpen set_broadcastSse)

theorem reload_publishes_and_keeps_clients_witness:
  "clients (fst (onConfigChange ''./default.cfg'' (Inr new_config) ex_streams)) =
     [(''a'', \<lparr>ws = 1, client_id = ''a'', intervalMs = Finite 2500, paused = True,
         lastSentAt = 0, mode = Bin\<rparr>),
      (''b'', \<lparr>ws = 2, client_id = ''b'', intervalMs = Finite 1200, paused = False,
         lastSentAt = 0, mode = Url\<rparr>)]
   \<and> api_config (fst (onConfigChange ''./default.cfg'' (Inr new_config) ex_streams)) =
       SafeConfig ''127.0.0.1'' 8000 1000 Url 50
   \<and> Send 1 (MsgConfig (SafeConfig ''127.0.0.1'' 8000 1000 Url 50))
        \<in> set (snd (onConfigChange ''./default.cfg'' (Inr new_config) ex_streams))
   \<and> Send 2 (MsgConfig (SafeConfig ''127.0.0.1'' 8000 1000 Url 50))
        \<in> set (snd (onConfigChange ''./default.cfg'' (Inr new_config) ex_streams))
   \<and> Enqueue 11 (SseConfig (SafeConfig ''127.0.0.1'' 8000 1000 Url 50))
        \<in> set (snd (onConfigChange ''./default.cfg'' (Inr new_config) ex_streams))"
proof -
  note th = reload_publishes_and_keeps_clients[of "''./default.cfg''" new_config ex_streams]
  have safe: "safeConfigForClient new_config = SafeConfig ''127.0.0.1'' 8000 1000 Url 50"
    by (simp add: safeConfigForClient_def new_config_def DEFAULTS_def)
  have a: "(''a'', \<lparr>ws = 1, client_id = ''a'', intervalMs = Finite 2500, paused = True,
         lastSentAt = 0, mode = Bin\<rparr>) \<in> set (clients ex_streams)"
    and b: "(''b'', \<lparr>ws = 2, client_id = ''b'', intervalMs = Finite 1200, paused = False,
         lastSentAt = 0, mode = Url\<rparr>) \<in> set (clients ex_streams)"
    and c: "(''s'', \<lparr>sse_id = ''s'', ctrl = 11\<rparr>) \<in> set (sseClients ex_streams)"
    and op: "readyState ex_streams 1 = OPEN" "readyState ex_streams 2 = OPEN"
      "\<not> ctrlClosed ex_streams 11"
    by (simp_all add: ex_streams_eq)
  from th have "clients (fst (onConfigChange ''./default.cfg'' (Inr new_config) ex_streams)) =
      clients ex_streams"
    by blast
  then have k: "clients (fst (onConfigChange ''./default.cfg'' (Inr new_config) ex_streams)) =
     [(''a'', \<lparr>ws = 1, client_id = ''a'', intervalMs = Finite 2500, paused = True,
         lastSentAt = 0, mode = Bin\<rparr>),
      (''b'', \<lparr>ws = 2, client_id = ''b'', intervalMs = Finite 1200, paused = False,
         lastSentAt = 0, mode = Url\<rparr>)]"
    by (simp add: ex_streams_eq)
  from th safe have api: "api_config (fst (onConfigChange ''./default.cfg'' (Inr new_config) ex_streams)) =
       SafeConfig ''127.0.0.1'' 8000 1000 Url 50"
    by simp
  from th a op safe have s1: "Send 1 (MsgConfig (SafeConfig ''127.0.0.1'' 8000 1000 Url 50))
        \<in> set (snd (onConfigChange ''./default.cfg'' (Inr new_config) ex_streams))"
    by fastforce
  from th b op safe have s2: "Send 2 (MsgConfig (SafeConfig ''127.0.0.1'' 8000 1000 Url 50))
        \<in> set (snd (onConfigChange ''./default.cfg'' (Inr new_config) ex_streams))"
    by fastforce
  from th c op safe have s3: "Enqueue 11 (SseConfig (SafeConfig ''127.0.0.1'' 8000 1000 Url 50))
        \<in> set (snd (onConfigChange ''./default.cfg'' (Inr new_config) ex_streams))"
    by fastforce
  from k api s1 s2 s3 show ?thesis by simp
qed

text \<open>
  Claim C7. After a reload whose loader threw: the state is the old one but for the
  error counter, which is one higher; so the configuration, the answer of the config
  endpoint and the registry are unchanged. The only effect is the line on the console:
  nothing is sent to any connection.
\<close>

theorem reload_failure_keeps_config:
  "fst (onConfigChange path (Inl e) s) = s\<lparr>state := (state s)\<lparr>errors := errors (state s) + 1\<rparr>\<rparr>
   \<and> config (fst (onConfigChange path (Inl e) s)) = config s
   \<and> api_config (fst (onConfigChange path (Inl e) s)) = api_config s
   \<and> clients (fst (onConfigChange path (Inl e) s)) = clients s
   \<and> errors (state (fst (onConfigChange path (Inl e) s))) = errors (state s) + 1
   \<and> snd (onConfigChange path (Inl e) s) = [ConsoleLog [''Config reload failed:'', e]]"
  by (simp add: onConfigChange_def api_config_def)

theorem reload_failure_keeps_config_witness:
  "api_config (fst (onConfigChange ''./default.cfg'' (Inl ''bad file'') ex_streams)) =
      SafeConfig ''127.0.0.1'' 8000 2500 Bin 50
   \<and> errors (state (fst (onConfigChange ''./default.cfg'' (Inl ''bad file'') ex_streams))) = 2
   \<and> snd (onConfigChange ''./default.cfg'' (Inl ''bad file'') ex_streams) =
      [ConsoleLog [''Config reload failed:'', ''bad file'']]"
  using reload_failure_keeps_config[of "''./default.cfg''" "''bad file''" ex_streams]
  by (simp add: ex_streams_eq api_config_def safeConfigForClient_def bin_config_def DEFAULTS_def
      makeState_def)

section \<open>When \<open>lastSentAt\<close> is written\<close>




section \<open>Blank messages and the fallback to plain text\<close>

lemma trim_blank:
  assumes "\<forall>c \<in> set raw. is_ws c"
  shows "trim raw = []"
proof -
  from assms have d: "dropWhile is_ws raw = []" by (induction raw) auto
  show ?thesis by (simp add: trim_def d)
qed

lemma split_go_nonempty: "split_go inrun cur str \<noteq> []"
  by (induction str arbitrary: inrun cur) auto

lemma textCommand_handle:
  "textCommand js sock uid str s =
     handleCommand js sock uid (toLowerCase (hd (split_ws str))) (tl (split_ws str)) s"
  using split_go_nonempty[of False "[]" str]
  by (cases "split_ws str") (simp_all add: textCommand_def split_ws_def)

lemma startsWith_nonempty: "startsWith str ''{'' \<Longrightarrow> str \<noteq> []"
  by (auto simp: startsWith_def)

text \<open>
  Claim C9. A text message that is empty or all white space is counted and otherwise
  ignored: no reply, no change of any connection. A message whose trimmed text starts
  with a brace and that \<open>JSON.parse\<close> rejects is handled by the plain-text stage on that
  trimmed text: the result is that of \<open>handleCommand\<close> on its first word in lower case
  and its remaining words.
\<close>

theorem blank_ignored_unparsable_falls_back:
  "((\<forall>c \<in> set raw. is_ws c) \<longrightarrow>
      onmessage js sock uid (TextData raw) s =
        (s\<lparr>state := (state s)\<lparr>wsMessages := wsMessages (state s) + 1\<rparr>\<rparr>, []))
   \<and> (startsWith (trim raw) ''{'' \<and> JSON_parse js (trim raw) = None \<longrightarrow>
      onmessage js sock uid (TextData raw) s =
        textCommand js sock uid (trim raw)
          (s\<lparr>state := (state s)\<lparr>wsMessages := wsMessages (state s) + 1\<rparr>\<rparr>)
      \<and> textCommand js sock uid (trim raw)
          (s\<lparr>state := (state s)\<lparr>wsMessages := wsMessages (state s) + 1\<rparr>\<rparr>) =
        handleCommand js sock uid (toLowerCase (hd (split_ws (trim raw)))) (tl (split_ws (trim raw)))
          (s\<lparr>state := (state s)\<lparr>wsMessages := wsMessages (state s) + 1\<rparr>\<rparr>))"
proof (intro conjI impI)
  assume "\<forall>c \<in> set raw. is_ws c"
  then have "trim raw = []" by (rule trim_blank)
  then show "onmessage js sock uid (TextData raw) s =
        (s\<lparr>state := (state s)\<lparr>wsMessages := wsMessages (state s) + 1\<rparr>\<rparr>, [])"
    by (simp add: onmessage_def)
next
  assume a: "startsWith (trim raw) ''{'' \<and> JSON_parse js (trim raw) = None"
  then have "trim raw \<noteq> []" by (simp add: startsWith_nonempty)
  with a show "onmessage js sock uid (TextData raw) s =
        textCommand js sock uid (trim raw)
          (s\<lparr>state := (state s)\<lparr>wsMessages := wsMessages (state s) + 1\<rparr>\<rparr>)"
    by (simp add: onmessage_def Let_def)
next
  show "textCommand js sock uid (trim raw)
          (s\<lparr>state := (state s)\<lparr>wsMessages := wsMessages (state s) + 1\<rparr>\<rparr>) =
        handleCommand js sock uid (toLowerCase (hd (split_ws (trim raw)))) (tl (split_ws (trim raw)))
          (s\<lparr>state := (state s)\<lparr>wsMessages := wsMessages (state s) + 1\<rparr>\<rparr>)"
    by (rule textCommand_handle)
qed

theorem blank_ignored_unparsable_falls_back_witness:
  "onmessage js_sample 2 ''b'' (TextData ''   '') ex_mixed =
     (ex_mixed\<lparr>state := (state ex_mixed)\<lparr>wsMessages := 2\<rparr>\<rparr>, [])
   \<and> JSON_parse js_sample (trim '' {bad '') = None
   \<and> onmessage js_sample 2 ''b'' (TextData '' {bad '') ex_mixed =
     handleCommand js_sample 2 ''b'' ''{bad'' []
       (ex_mixed\<lparr>state := (state ex_mixed)\<lparr>wsMessages := 2\<rparr>\<rparr>)
   \<and> snd (onmessage js_sample 2 ''b'' (TextData '' {bad '') ex_mixed) =
     [Send 2 (MsgError ''unknown command: {bad'')]"
proof -
  note th1 = blank_ignored_unparsable_falls_back[of "''   ''" js_sample 2 "''b''" ex_mixed]
  note th2 = blank_ignored_unparsable_falls_back[of "'' {bad ''" js_sample 2 "''b''" ex_mixed]
  have blank: "\<forall>c \<in> set ''   ''. is_ws c" by (simp add: is_ws_def)
  have n: "wsMessages (state ex_mixed) + 1 = 2" "Suc (wsMessages (state ex_mixed)) = 2"
    by (simp_all add: ex_mixed_eq makeState_def)
  have tr: "trim '' {bad '' = ''{bad''" by (simp add: trim_def is_ws_def)
  have bad: "startsWith (trim '' {bad '') ''{'' \<and> JSON_parse js_sample (trim '' {bad '') = None"
    by (simp add: tr startsWith_def js_sample_def)
  have sp: "toLowerCase (hd (split_ws ''{bad'')) = ''{bad''" "tl (split_ws ''{bad'') = []"
    by (simp_all add: split_ws_def is_ws_def toLowerCase_def toLowerChar_def)
  from th1 blank n have a: "onmessage js_sample 2 ''b'' (TextData ''   '') ex_mixed =
     (ex_mixed\<lparr>state := (state ex_mixed)\<lparr>wsMessages := 2\<rparr>\<rparr>, [])"
    by simp
  from th2 bad have "onmessage js_sample 2 ''b'' (TextData '' {bad '') ex_mixed =
     handleCommand js_sample 2 ''b'' (toLowerCase (hd (split_ws (trim '' {bad ''))))
       (tl (split_ws (trim '' {bad '')))
       (ex_mixed\<lparr>state := (state ex_mixed)\<lparr>wsMessages := wsMessages (state ex_mixed) + 1\<rparr>\<rparr>)"
    by simp
  then have b: "onmessage js_sample 2 ''b'' (TextData '' {bad '') ex_mixed =
     handleCommand js_sample 2 ''b'' ''{bad'' []
       (ex_mixed\<lparr>state := (state ex_mixed)\<lparr>wsMessages := 2\<rparr>\<rparr>)"
    by (simp add: tr sp n)
  have c: "snd (handleCommand js_sample 2 ''b'' ''{bad'' []
       (ex_mixed\<lparr>state := (state ex_mixed)\<lparr>wsMessages := 2\<rparr>\<rparr>)) =
     [Send 2 (MsgError ''unknown command: {bad'')]"
    by (simp add: ex_mixed_eq handleCommand_def reply_def)
  from a bad b c show ?thesis by simp
qed

text \<open>
  What the plain-text stage then answers: the first word starts with the brace, so it is
  none of the commands, and a registered connection gets the unknown-command error.
\<close>

lemma hd_split_go:
  "hd (split_go False cur str) = rev cur @ takeWhile (\<lambda>c. \<not> is_ws c) str"
  by (induction str arbitrary: cur) auto

lemma brace_first_token:
  assumes "startsWith str ''{''"
  shows "\<exists>rest. toLowerCase (hd (split_ws str)) = CHR ''{'' # rest"
proof -
  from assms obtain cs where str: "str = CHR ''{'' # cs"
    by (cases str) (auto simp: startsWith_def)
  have "\<not> is_ws CHR ''{''" by (simp add: is_ws_def)
  then have "hd (split_ws str) = CHR ''{'' # takeWhile (\<lambda>c. \<not> is_ws c) cs"
    by (simp add: split_ws_def hd_split_go str)
  moreover have "toLowerChar CHR ''{'' = CHR ''{''"
    by (simp add: toLowerChar_def Let_def)
  ultimately show ?thesis by (simp add: toLowerCase_def)
qed

lemma unparsable_brace_is_unknown_command:
  assumes "startsWith (trim raw) ''{''" "JSON_parse js (trim raw) = None"
    and "map_of (clients s) uid = Some c"
  shows "onmessage js sock uid (TextData raw) s =
     (s\<lparr>state := (state s)\<lparr>wsMessages := wsMessages (state s) + 1\<rparr>\<rparr>,
      reply s sock (MsgError (''unknown command: '' @ toLowerCase (hd (split_ws (trim raw))))))"
proof -
  from brace_first_token[OF assms(1)] obtain rest
    where cmd: "toLowerCase (hd (split_ws (trim raw))) = CHR ''{'' # rest" by blast
  have ne: "trim raw \<noteq> []" using assms(1) by (rule startsWith_nonempty)
  have "onmessage js sock uid (TextData raw) s =
      handleCommand js sock uid (CHR ''{'' # rest) (tl (split_ws (trim raw)))
        (s\<lparr>state := (state s)\<lparr>wsMessages := wsMessages (state s) + 1\<rparr>\<rparr>)"
    using assms(1,2) ne by (simp add: onmessage_def Let_def textCommand_handle cmd)
  also have "\<dots> = (s\<lparr>state := (state s)\<lparr>wsMessages := wsMessages (state s) + 1\<rparr>\<rparr>,
      reply s sock (MsgError (''unknown command: '' @ CHR ''{'' # rest)))"
    using assms(3) by (simp add: handleCommand_def reply_def)
  finally show ?thesis by (simp add: cmd)
qed

section \<open>What triggers the fetch\<close>

text \<open>
  Claim C10. A tick calls \<open>fetchCatBytes\<close>, once, exactly when some registered connection
  is in \<open>bin\<close> mode and not paused: whether any connection is due and whether that
  connection's socket is open play no part.
\<close>

theorem fetch_trigger:
  "count_list (snd (tick s env t s2)) FetchCatBytes =
     (if \<exists>(k, c) \<in> set (clients s). mode c = Bin \<and> \<not> paused c then 1 else 0)"
  using tick_fetch_count[of s env t s2]
  by (simp add: someoneWantsBin_def list_ex_iff)

theorem fetch_trigger_witness:
  "clients ex_one_closing = [(''a'', \<lparr>ws = 1, client_id = ''a'', intervalMs = Finite 2500,
       paused = False, lastSentAt = 0, mode = Bin\<rparr>)]
   \<and> readyState ex_one_closing 1 = CLOSING
   \<and> \<not> due ex_one_closing 250 \<lparr>ws = 1, client_id = ''a'', intervalMs = Finite 2500,
       paused = False, lastSentAt = 0, mode = Bin\<rparr>
   \<and> count_list (snd (tick ex_one_closing env_fetch_ok 250 ex_one_closing)) FetchCatBytes = 1"
  using fetch_trigger[of ex_one_closing env_fetch_ok 250 ex_one_closing]
  by (simp add: ex_one_closing_eq due_def)

end
